theory Spec2Isabelle
  imports Main "HOL-Library.Word"
begin

section \<open>The mask-free image edit sample\<close>

text \<open>
  A shallow embedding of \<^verbatim>\<open>generative_ai/imagen/edit_image_mask_free.py\<close>.
  The script is a straight line of calls into the Vertex AI SDK, the file system and
  standard output. The SDK is a black box to the script, so its replies are a parameter
  of the model (a record of reply functions); what the script itself decides is which
  calls it makes, with which arguments, in which order, and what it does with a reply.
  Every call the script makes is appended to a log, so that order and arguments can be
  stated as properties of the log.
\<close>

subsection \<open>Data\<close>

type_synonym bytes = "8 word list"

text \<open>
  \<^verbatim>\<open>Image\<close>, the base image of a request: it holds either the bytes read from a
  local file or the URI of an object in Cloud Storage, which the SDK does not read.
\<close>

datatype Image = Image bytes | GcsImage string

text \<open>
  \<^verbatim>\<open>GeneratedImage\<close>, an image of the response. The script reads one attribute
  only, \<^verbatim>\<open>_image_bytes\<close>. The request of the script names no Cloud Storage
  location for the output, so the images of the response come back as bytes.
\<close>

datatype GeneratedImage = GeneratedImage (image_bytes: bytes)

text \<open>
  Every exception the function can end with, tagged by the step that raised it. The
  message of an SDK or OS exception is the SDK's; \<^verbatim>\<open>IndexError\<close> is raised by
  \<^verbatim>\<open>images[0]\<close> on an empty response.
\<close>

datatype error =
    InitError string
  | ModelError string
  | LoadError string
  | EditError string
  | IndexError
  | SaveError string

text \<open>The calls the script makes to the outside, with their arguments.\<close>

datatype call =
    Init string string
  | FromPretrained string
  | LoadFromFile string
  | EditImage string Image string int int int
  | GetItem int
  | Save GeneratedImage string
  | Print string

text \<open>
  The replies of the SDK.
  \<^item> \<open>init_reply project location\<close>: \<open>Some msg\<close> when \<^verbatim>\<open>vertexai.init\<close> raises.
  \<^item> \<open>from_pretrained_reply name\<close>: \<open>Some msg\<close> when the model lookup raises.
  \<^item> \<open>storage_uri location\<close>: the Cloud Storage URI that \<^verbatim>\<open>Image.load_from_file\<close>
    reads a location as (a \<^verbatim>\<open>gs://\<close> location, or one under
    \<^verbatim>\<open>https://storage.googleapis.com/\<close>), \<open>None\<close> for a local path.
  \<^item> \<open>edit_image_reply model base_image prompt seed guidance_scale number_of_images\<close>:
    the error message, or the images of the response.
  \<^item> \<open>save_reply image location\<close>: the error message, or the bytes the SDK writes to
    \<open>location\<close> (the encoding is the SDK's).
\<close>

record sdk =
  init_reply :: "string \<Rightarrow> string \<Rightarrow> string option"
  from_pretrained_reply :: "string \<Rightarrow> string option"
  storage_uri :: "string \<Rightarrow> string option"
  edit_image_reply ::
    "string \<Rightarrow> Image \<Rightarrow> string \<Rightarrow> int \<Rightarrow> int \<Rightarrow> int \<Rightarrow> string + GeneratedImage list"
  save_reply :: "GeneratedImage \<Rightarrow> string \<Rightarrow> string + bytes"

text \<open>
  The state of the world around one run: the local files (a path that is not in the map
  does not exist), the lines printed to standard output, and the log of calls, oldest
  first.
\<close>

record world =
  files :: "string \<rightharpoonup> bytes"
  stdout :: "string list"
  calls :: "call list"

type_synonym 'a io = "world \<Rightarrow> world \<times> (error + 'a)"

subsection \<open>Sequencing\<close>

text \<open>
  One Python statement after another: the next statement runs in the world the previous
  one left, and only if the previous one did not raise. The function has no
  \<^verbatim>\<open>try\<close>, so an exception ends it.
\<close>

definition return_io :: "'a \<Rightarrow> 'a io" where
  "return_io x w = (w, Inr x)"

definition and_then :: "'a io \<Rightarrow> ('a \<Rightarrow> 'b io) \<Rightarrow> 'b io" where
  "and_then m f w = (case m w of (w', Inl e) \<Rightarrow> (w', Inl e) | (w', Inr x) \<Rightarrow> f x w')"

definition record_call :: "call \<Rightarrow> world \<Rightarrow> world" where
  "record_call c w = w\<lparr>calls := calls w @ [c]\<rparr>"

subsection \<open>The operations the script calls\<close>

definition vertexai_init :: "sdk \<Rightarrow> string \<Rightarrow> string \<Rightarrow> unit io" where
  "vertexai_init s project location w =
     (let w' = record_call (Init project location) w in
      case init_reply s project location of
        Some msg \<Rightarrow> (w', Inl (InitError msg))
      | None \<Rightarrow> (w', Inr ()))"

text \<open>The model object is represented by the name it was looked up under.\<close>

definition from_pretrained :: "sdk \<Rightarrow> string \<Rightarrow> string io" where
  "from_pretrained s name w =
     (let w' = record_call (FromPretrained name) w in
      case from_pretrained_reply s name of
        Some msg \<Rightarrow> (w', Inl (ModelError msg))
      | None \<Rightarrow> (w', Inr name))"

text \<open>
  \<^verbatim>\<open>Image.load_from_file\<close>. A location the SDK reads as a Cloud Storage URI gives
  an image that holds the URI, and no local file is read. Any other location is a local
  path: a path that names no file raises, and so does an empty file, since the
  constructor of an image refuses an empty buffer.
\<close>

definition loaded :: "sdk \<Rightarrow> world \<Rightarrow> string \<Rightarrow> error + Image" where
  "loaded s w location =
     (case storage_uri s location of
        Some uri \<Rightarrow> Inr (GcsImage uri)
      | None \<Rightarrow>
         (case files w location of
            None \<Rightarrow> Inl (LoadError location)
          | Some b \<Rightarrow> if b = [] then Inl (LoadError location) else Inr (Image b)))"

definition load_from_file :: "sdk \<Rightarrow> string \<Rightarrow> Image io" where
  "load_from_file s location w = (record_call (LoadFromFile location) w, loaded s w location)"

text \<open>
  \<^verbatim>\<open>model.edit_image\<close>. The SDK builds a \<^verbatim>\<open>GeneratedImage\<close> from each
  prediction of the reply; the constructor refuses an empty buffer, so a reply with such
  a prediction raises inside the call.
\<close>

definition edit_image ::
  "sdk \<Rightarrow> string \<Rightarrow> Image \<Rightarrow> string \<Rightarrow> int \<Rightarrow> int \<Rightarrow> int \<Rightarrow> GeneratedImage list io" where
  "edit_image s model base_image prompt seed guidance_scale number_of_images w =
     (let w' = record_call
                 (EditImage model base_image prompt seed guidance_scale number_of_images) w in
      case edit_image_reply s model base_image prompt seed guidance_scale number_of_images of
        Inl msg \<Rightarrow> (w', Inl (EditError msg))
      | Inr images \<Rightarrow>
          if [] \<in> set (map image_bytes images)
          then (w', Inl (EditError ''Either image_bytes or gcs_uri must be provided.''))
          else (w', Inr images))"

text \<open>
  \<^verbatim>\<open>images[i]\<close>: the response indexes its list of images, so a negative index
  counts from the end and an index out of range raises \<^verbatim>\<open>IndexError\<close>.
\<close>

definition getitem :: "GeneratedImage list \<Rightarrow> int \<Rightarrow> GeneratedImage io" where
  "getitem images i w =
     (let w' = record_call (GetItem i) w; n = int (length images) in
      if i < - n \<or> n \<le> i then (w', Inl IndexError)
      else (w', Inr (images ! nat (if i < 0 then i + n else i))))"

text \<open>
  \<^verbatim>\<open>image.save(location)\<close>: when the SDK does not raise, the file at \<open>location\<close>
  holds what the SDK wrote.
\<close>

definition save :: "sdk \<Rightarrow> GeneratedImage \<Rightarrow> string \<Rightarrow> unit io" where
  "save s img location w =
     (let w' = record_call (Save img location) w in
      case save_reply s img location of
        Inl msg \<Rightarrow> (w', Inl (SaveError msg))
      | Inr written \<Rightarrow> (w'\<lparr>files := (files w')(location \<mapsto> written)\<rparr>, Inr ()))"

definition print :: "string \<Rightarrow> unit io" where
  "print line w = ((record_call (Print line) w)\<lparr>stdout := stdout w @ [line]\<rparr>, Inr ())"

subsection \<open>Formatting the byte count\<close>

text \<open>\<^verbatim>\<open>str(n)\<close> for the result of \<^verbatim>\<open>len\<close>: decimal, no sign, no leading zero.\<close>

definition digit :: "nat \<Rightarrow> char" where
  "digit d = ''0123456789'' ! d"

function str :: "nat \<Rightarrow> string" where
  "str n = (if n < 10 then [digit n] else str (n div 10) @ [digit (n mod 10)])"
  by pat_completeness auto
termination
  by (relation "measure id") auto

declare str.simps [simp del]

definition created_message :: "nat \<Rightarrow> string" where
  "created_message n = ''Created output image using '' @ str n @ '' bytes''"

subsection \<open>The function\<close>

definition edit_image_mask_free ::
  "sdk \<Rightarrow> string \<Rightarrow> string \<Rightarrow> string \<Rightarrow> string \<Rightarrow> string \<Rightarrow> GeneratedImage list io" where
  "edit_image_mask_free s project_id location input_file output_file prompt =
     and_then (vertexai_init s project_id location) (\<lambda>_.
     and_then (from_pretrained s ''imagegeneration@002'') (\<lambda>model.
     and_then (load_from_file s input_file) (\<lambda>base_img.
     and_then (edit_image s model base_img prompt 1 21 1) (\<lambda>images.
     and_then (getitem images 0) (\<lambda>first.
     and_then (save s first output_file) (\<lambda>_.
     and_then (getitem images 0) (\<lambda>shown.
     and_then (print (created_message (length (image_bytes shown)))) (\<lambda>_.
     return_io images))))))))"

subsection \<open>Reading the log\<close>

text \<open>The calls one run appended to the log: those of the world after, less those before.\<close>

definition calls_made :: "world \<Rightarrow> world \<Rightarrow> call list" where
  "calls_made w w' = drop (length (calls w)) (calls w')"

text \<open>The kind of a call, forgetting its arguments.\<close>

datatype step = InitStep | ModelStep | LoadStep | EditStep | IndexStep | SaveStep | PrintStep

fun step_of :: "call \<Rightarrow> step" where
  "step_of (Init _ _) = InitStep"
| "step_of (FromPretrained _) = ModelStep"
| "step_of (LoadFromFile _) = LoadStep"
| "step_of (EditImage _ _ _ _ _ _) = EditStep"
| "step_of (GetItem _) = IndexStep"
| "step_of (Save _ _) = SaveStep"
| "step_of (Print _) = PrintStep"

text \<open>The statements of the function body in program order (lines 41 to 62).\<close>

definition program_order :: "step list" where
  "program_order =
     [InitStep, ModelStep, LoadStep, EditStep, IndexStep, SaveStep, IndexStep, PrintStep]"

text \<open>The step that raises a given exception.\<close>

fun raised_by :: "error \<Rightarrow> step" where
  "raised_by (InitError _) = InitStep"
| "raised_by (ModelError _) = ModelStep"
| "raised_by (LoadError _) = LoadStep"
| "raised_by (EditError _) = EditStep"
| "raised_by IndexError = IndexStep"
| "raised_by (SaveError _) = SaveStep"

text \<open>
  \<open>precedes a b cs\<close>: in the log \<open>cs\<close>, every call of kind \<open>b\<close> has a call of kind
  \<open>a\<close> strictly before it.
\<close>

fun precedes :: "step \<Rightarrow> step \<Rightarrow> call list \<Rightarrow> bool" where
  "precedes a b [] = True"
| "precedes a b (c # cs) = (step_of c \<noteq> b \<and> (step_of c = a \<or> precedes a b cs))"

text \<open>What a call says about the model, the generation parameters and the index.\<close>

fun model_of :: "call \<Rightarrow> string option" where
  "model_of (FromPretrained name) = Some name"
| "model_of (EditImage model _ _ _ _ _) = Some model"
| "model_of _ = None"

fun parameters_of :: "call \<Rightarrow> (int \<times> int \<times> int) option" where
  "parameters_of (EditImage _ _ _ seed guidance_scale number_of_images) =
     Some (seed, guidance_scale, number_of_images)"
| "parameters_of _ = None"

fun index_of :: "call \<Rightarrow> int option" where
  "index_of (GetItem i) = Some i"
| "index_of _ = None"

fun saved_by :: "call \<Rightarrow> (GeneratedImage \<times> string) option" where
  "saved_by (Save img location) = Some (img, location)"
| "saved_by _ = None"

text \<open>
  Modelled from the spec: which calls of the SDK go to the network is inside the SDK.
  The spec counts exactly one network call in a run, the request to the remote model
  endpoint (sections 4.1 and 5).
\<close>

fun network_call :: "call \<Rightarrow> bool" where
  "network_call (EditImage _ _ _ _ _ _) = True"
| "network_call _ = False"

text \<open>The number a string of decimal digits denotes.\<close>

definition decimal :: "string \<Rightarrow> nat" where
  "decimal ds = foldl (\<lambda>acc c. 10 * acc + (of_char c - 48)) 0 ds"

subsection \<open>Sample runs\<close>

text \<open>
  A service that answers every call, returning one five-byte image when one image is
  asked for, and a world that holds one input file.
\<close>

definition edited :: GeneratedImage where
  "edited = GeneratedImage [0x89, 0x50, 0x4E, 0x47, 0x0D]"

definition good_sdk :: sdk where
  "good_sdk = \<lparr>init_reply = (\<lambda>_ _. None),
               from_pretrained_reply = (\<lambda>_. None),
               storage_uri = (\<lambda>location. if take 5 location = ''gs://''
                                           then Some location else None),
               edit_image_reply = (\<lambda>_ _ _ _ _ n. Inr (if n = 1 then [edited] else [])),
               save_reply = (\<lambda>img _. Inr (image_bytes img))\<rparr>"

definition start :: world where
  "start = \<lparr>files = [''in.png'' \<mapsto> [0x89, 0x50], ''empty.png'' \<mapsto> []],
             stdout = [], calls = []\<rparr>"

text \<open>The same service with one reply changed.\<close>

definition no_credentials_sdk :: sdk where
  "no_credentials_sdk = good_sdk\<lparr>init_reply := (\<lambda>_ _. Some ''no credentials'')\<rparr>"

definition no_model_sdk :: sdk where
  "no_model_sdk = good_sdk\<lparr>from_pretrained_reply := (\<lambda>_. Some ''not found'')\<rparr>"

definition quota_sdk :: sdk where
  "quota_sdk = good_sdk\<lparr>edit_image_reply := (\<lambda>_ _ _ _ _ _. Inl ''quota exceeded'')\<rparr>"

definition empty_sdk :: sdk where
  "empty_sdk = good_sdk\<lparr>edit_image_reply := (\<lambda>_ _ _ _ _ _. Inr [])\<rparr>"

definition two_sdk :: sdk where
  "two_sdk = good_sdk\<lparr>edit_image_reply :=
               (\<lambda>_ _ _ _ _ _. Inr [edited, GeneratedImage [0x00]])\<rparr>"

definition read_only_sdk :: sdk where
  "read_only_sdk = good_sdk\<lparr>save_reply := (\<lambda>_ _. Inl ''read-only file system'')\<rparr>"

section \<open>The command line\<close>

text \<open>
  Lines 69 to 99 build an \<^verbatim>\<open>argparse.ArgumentParser\<close> with five options, parse
  \<^verbatim>\<open>sys.argv[1:]\<close> and call the function with the five attributes of the result.
  What the parser does with a command line is the standard library's; it is modelled here
  for this parser (prefix character \<^verbatim>\<open>-\<close>, abbreviations allowed, no positional
  arguments, no option that looks like a negative number), following
  \<^verbatim>\<open>_parse_known_args\<close> of Python 3.11: first every argument is classified, then the
  options are consumed from left to right, then the required options are checked, then
  arguments nobody consumed are rejected. An argument is a string of characters with
  codes below 256.
\<close>

subsection \<open>The options\<close>

datatype dest = ProjectId | Location | InputFile | OutputFile | Prompt

text \<open>
  \<open>Help\<close> is the action \<^verbatim>\<open>ArgumentParser()\<close> adds by itself (it takes no argument);
  \<open>Store d\<close> is the action of \<^verbatim>\<open>add_argument\<close> (it takes exactly one).
\<close>

datatype action = Help | Store dest

text \<open>
  How parsing ends the process: the help action prints the help and exits with status 0,
  \<^verbatim>\<open>parser.error\<close> prints the usage and exits with status 2.
\<close>

datatype parser_exit = HelpExit | ErrorExit

text \<open>The option strings, in the order in which they were registered.\<close>

definition option_string_actions :: "(string \<times> action) list" where
  "option_string_actions =
     [(''-h'', Help), (''--help'', Help),
      (''--project_id'', Store ProjectId),
      (''--location'', Store Location),
      (''--input_file'', Store InputFile),
      (''--output_file'', Store OutputFile),
      (''--prompt'', Store Prompt)]"

text \<open>
  The namespace while parsing. An attribute without a default holds \<^verbatim>\<open>None\<close> until
  its option stores a string, so an option has been seen exactly when its attribute is
  set; \<^verbatim>\<open>location\<close> starts at its default and only ever holds a string.
\<close>

record namespace =
  ns_project_id :: "string option"
  ns_location :: string
  ns_input_file :: "string option"
  ns_output_file :: "string option"
  ns_prompt :: "string option"

definition defaults :: namespace where
  "defaults = \<lparr>ns_project_id = None, ns_location = ''us-central1'', ns_input_file = None,
               ns_output_file = None, ns_prompt = None\<rparr>"

fun setattr :: "dest \<Rightarrow> string \<Rightarrow> namespace \<Rightarrow> namespace" where
  "setattr ProjectId v ns = ns\<lparr>ns_project_id := Some v\<rparr>"
| "setattr Location v ns = ns\<lparr>ns_location := v\<rparr>"
| "setattr InputFile v ns = ns\<lparr>ns_input_file := Some v\<rparr>"
| "setattr OutputFile v ns = ns\<lparr>ns_output_file := Some v\<rparr>"
| "setattr Prompt v ns = ns\<lparr>ns_prompt := Some v\<rparr>"

fun getattr :: "dest \<Rightarrow> namespace \<Rightarrow> string option" where
  "getattr ProjectId ns = ns_project_id ns"
| "getattr Location ns = Some (ns_location ns)"
| "getattr InputFile ns = ns_input_file ns"
| "getattr OutputFile ns = ns_output_file ns"
| "getattr Prompt ns = ns_prompt ns"

text \<open>The namespace \<^verbatim>\<open>parse_args\<close> returns: by then every attribute is a string.\<close>

record args =
  project_id :: string
  location :: string
  input_file :: string
  output_file :: string
  prompt :: string

subsection \<open>Classifying one argument\<close>

text \<open>
  An option tuple: the action (\<open>None\<close> for an option the parser does not have), the
  option string, the separator and the explicit argument (\<open>None\<close> for Python's
  \<^verbatim>\<open>None\<close>).
\<close>

type_synonym option_tuple = "action option \<times> string \<times> string option \<times> string option"

text \<open>The pattern letters \<^verbatim>\<open>A\<close>, \<^verbatim>\<open>-\<close> and \<^verbatim>\<open>O\<close>.\<close>

datatype pattern = Argument | Separator | Optional option_tuple

definition startswith :: "string \<Rightarrow> string \<Rightarrow> bool" where
  "startswith s p = (take (length p) s = p)"

text \<open>\<^verbatim>\<open>s.partition('=')\<close>.\<close>

definition partition_eq :: "string \<Rightarrow> string \<times> string \<times> string" where
  "partition_eq s =
     (if CHR ''='' \<in> set s
      then (takeWhile (\<lambda>c. c \<noteq> CHR ''='') s, ''='', tl (dropWhile (\<lambda>c. c \<noteq> CHR ''='') s))
      else (s, [], []))"

text \<open>
  The negative-number matcher \<^verbatim>\<open>^-\d+$|^-\d*\.\d+$\<close>; \<^verbatim>\<open>$\<close> also matches before
  a final newline.
\<close>

definition is_digit :: "char \<Rightarrow> bool" where
  "is_digit c = (48 \<le> (of_char c :: nat) \<and> (of_char c :: nat) \<le> 57)"

definition minus_digits :: "string \<Rightarrow> bool" where
  "minus_digits s =
     (case s of
        [] \<Rightarrow> False
      | c # r \<Rightarrow> c = CHR ''-'' \<and>
          ((r \<noteq> [] \<and> list_all is_digit r) \<or>
           (case dropWhile is_digit r of
              [] \<Rightarrow> False
            | d # f \<Rightarrow> d = CHR ''.'' \<and> f \<noteq> [] \<and> list_all is_digit f)))"

definition negative_number :: "string \<Rightarrow> bool" where
  "negative_number s =
     (minus_digits s \<or> (s \<noteq> [] \<and> last s = CHR 0x0A \<and> minus_digits (butlast s)))"

text \<open>
  \<^verbatim>\<open>_get_option_tuples\<close>: the options an abbreviation can stand for. A string with
  two dashes is split at \<^verbatim>\<open>=\<close> and matches every option it is a prefix of; a string
  with one dash matches the one-letter option it starts with, the rest being that
  option's explicit argument.
\<close>

definition get_option_tuples :: "string \<Rightarrow> parser_exit + option_tuple list" where
  "get_option_tuples option_string =
     (case option_string of
        c0 # c1 # _ \<Rightarrow>
          if c0 = CHR ''-'' \<and> c1 = CHR ''-'' then
            (case partition_eq option_string of (option_prefix, sep, explicit_arg) \<Rightarrow>
               Inr (map (\<lambda>(s, action).
                          (Some action, s,
                           if sep = [] then None else Some sep,
                           if sep = [] then None else Some explicit_arg))
                      (filter (\<lambda>(s, action). startswith s option_prefix)
                         option_string_actions)))
          else if c0 = CHR ''-'' \<and> c1 \<noteq> CHR ''-'' then
            Inr (concat (map (\<lambda>(s, action).
                   if s = take 2 option_string
                   then [(Some action, s, Some [], Some (drop 2 option_string))]
                   else if startswith s option_string
                   then [(Some action, s, None, None)]
                   else []) option_string_actions))
          else Inl ErrorExit
      | _ \<Rightarrow> Inl ErrorExit)"

text \<open>
  \<^verbatim>\<open>_parse_optional\<close>: \<open>Inr None\<close> for a positional argument, \<open>Inr (Some t)\<close> for an
  option, \<open>Inl ErrorExit\<close> for an ambiguous abbreviation.
\<close>

definition parse_optional :: "string \<Rightarrow> parser_exit + option_tuple option" where
  "parse_optional arg_string =
     (if arg_string = [] then Inr None
      else if hd arg_string \<noteq> CHR ''-'' then Inr None
      else case map_of option_string_actions arg_string of
        Some action \<Rightarrow> Inr (Some (Some action, arg_string, None, None))
      | None \<Rightarrow>
          if length arg_string = 1 then Inr None
          else (case partition_eq arg_string of (option_string, sep, explicit_arg) \<Rightarrow>
            (case (if sep \<noteq> [] then map_of option_string_actions option_string else None) of
               Some action \<Rightarrow> Inr (Some (Some action, option_string, Some sep, Some explicit_arg))
             | None \<Rightarrow>
                (case get_option_tuples arg_string of
                   Inl status \<Rightarrow> Inl status
                 | Inr [] \<Rightarrow>
                     if negative_number arg_string then Inr None
                     else if CHR '' '' \<in> set arg_string then Inr None
                     else Inr (Some (None, arg_string, None, None))
                 | Inr [option_tuple] \<Rightarrow> Inr (Some option_tuple)
                 | Inr _ \<Rightarrow> Inl ErrorExit))))"

text \<open>The first pass: everything after \<^verbatim>\<open>--\<close> is an argument.\<close>

fun classify :: "string list \<Rightarrow> parser_exit + (string \<times> pattern) list" where
  "classify [] = Inr []"
| "classify (arg_string # rest) =
     (if arg_string = ''--'' then Inr ((arg_string, Separator) # map (\<lambda>s. (s, Argument)) rest)
      else case parse_optional arg_string of
        Inl status \<Rightarrow> Inl status
      | Inr option_tuple \<Rightarrow>
         (case classify rest of
            Inl status \<Rightarrow> Inl status
          | Inr patterns \<Rightarrow>
              Inr ((arg_string,
                    case option_tuple of None \<Rightarrow> Argument | Some t \<Rightarrow> Optional t) # patterns)))"

subsection \<open>Consuming the options\<close>

text \<open>An action to take, with the argument it was matched with.\<close>

datatype taken = Helped | Stored dest string

definition single_dash :: "string \<Rightarrow> bool" where
  "single_dash option_string =
     (case option_string of _ # c # _ \<Rightarrow> c \<noteq> CHR ''-'' | _ \<Rightarrow> False)"

text \<open>
  \<^verbatim>\<open>consume_optional\<close>, for an option the parser has. The result is the actions to
  take, the strings added to the unrecognised arguments, and how many of the following
  arguments the option consumed. An explicit argument satisfies a storing option; after
  \<^verbatim>\<open>-h\<close> it is read as further one-letter options, and after \<^verbatim>\<open>--help\<close> it is an
  error. Without an explicit argument a storing option needs the next argument to be
  classified \<^verbatim>\<open>A\<close>.
\<close>

function consume_optional ::
  "action \<Rightarrow> string \<Rightarrow> string option \<Rightarrow> string option \<Rightarrow> (string \<times> pattern) list
     \<Rightarrow> taken list \<Rightarrow> parser_exit + taken list \<times> string list \<times> nat" where
  "consume_optional action option_string sep explicit_arg following action_tuples =
     (case explicit_arg of
        Some e \<Rightarrow>
          (case action of
             Help \<Rightarrow>
               (case e of
                  [] \<Rightarrow> Inl ErrorExit
                | c # e' \<Rightarrow>
                    if \<not> single_dash option_string then Inl ErrorExit
                    else if (sep \<noteq> None \<and> sep \<noteq> Some []) \<or> c = CHR ''-'' then Inl ErrorExit
                    else (case map_of option_string_actions [CHR ''-'', c] of
                            Some action' \<Rightarrow>
                              if e' = [] then
                                consume_optional action' [CHR ''-'', c] None None following
                                  (action_tuples @ [Helped])
                              else if hd e' = CHR ''='' then
                                consume_optional action' [CHR ''-'', c] (Some ''='') (Some (tl e'))
                                  following (action_tuples @ [Helped])
                              else
                                consume_optional action' [CHR ''-'', c] (Some []) (Some e')
                                  following (action_tuples @ [Helped])
                          | None \<Rightarrow> Inr (action_tuples @ [Helped], [CHR ''-'' # e], 0)))
           | Store d \<Rightarrow> Inr (action_tuples @ [Stored d e], [], 0))
      | None \<Rightarrow>
          (case action of
             Help \<Rightarrow> Inr (action_tuples @ [Helped], [], 0)
           | Store d \<Rightarrow>
               (case following of
                  (v, Argument) # _ \<Rightarrow> Inr (action_tuples @ [Stored d v], [], 1)
                | _ \<Rightarrow> Inl ErrorExit)))"
  by pat_completeness auto
termination
  by (relation "measure (\<lambda>(_, _, _, e, _, _). case e of None \<Rightarrow> 0 | Some x \<Rightarrow> Suc (length x))")
     (auto split: if_splits)

declare consume_optional.simps [simp del]

text \<open>\<^verbatim>\<open>take_action\<close> for each tuple in turn: help exits, a store sets its attribute.\<close>

fun take_actions :: "taken list \<Rightarrow> namespace \<Rightarrow> parser_exit + namespace" where
  "take_actions [] ns = Inr ns"
| "take_actions (Helped # _) ns = Inl HelpExit"
| "take_actions (Stored d v # rest) ns = take_actions rest (setattr d v ns)"

text \<open>
  The second pass. The parser has no positional argument, so an argument that no option
  consumes, the separator, and an option the parser does not have all join the
  unrecognised arguments.
\<close>

function consume ::
  "(string \<times> pattern) list \<Rightarrow> namespace \<Rightarrow> string list
     \<Rightarrow> parser_exit + namespace \<times> string list" where
  "consume [] ns extras = Inr (ns, extras)"
| "consume ((arg_string, Argument) # rest) ns extras = consume rest ns (extras @ [arg_string])"
| "consume ((arg_string, Separator) # rest) ns extras = consume rest ns (extras @ [arg_string])"
| "consume ((arg_string, Optional (None, option_string, sep, explicit_arg)) # rest) ns extras =
     consume rest ns (extras @ [arg_string])"
| "consume ((arg_string, Optional (Some action, option_string, sep, explicit_arg)) # rest)
     ns extras =
     (case consume_optional action option_string sep explicit_arg rest [] of
        Inl status \<Rightarrow> Inl status
      | Inr (action_tuples, skipped, n) \<Rightarrow>
         (case take_actions action_tuples ns of
            Inl status \<Rightarrow> Inl status
          | Inr ns' \<Rightarrow> consume (drop n rest) ns' (extras @ skipped)))"
  by pat_completeness auto
termination
  by (relation "measure (\<lambda>(ps, _, _). length ps)") auto

subsection \<open>The result of parsing\<close>

text \<open>
  The required options are those registered with \<^verbatim>\<open>required=True\<close>:
  \<^verbatim>\<open>--project_id\<close>, \<^verbatim>\<open>--input_file\<close>, \<^verbatim>\<open>--output_file\<close> and
  \<^verbatim>\<open>--prompt\<close>.
\<close>

definition check_required :: "namespace \<Rightarrow> parser_exit + args" where
  "check_required ns =
     (case (ns_project_id ns, ns_input_file ns, ns_output_file ns, ns_prompt ns) of
        (Some p, Some i, Some out, Some q) \<Rightarrow>
          Inr \<lparr>project_id = p, location = ns_location ns, input_file = i,
               output_file = out, prompt = q\<rparr>
      | _ \<Rightarrow> Inl ErrorExit)"

definition parse_known_args :: "string list \<Rightarrow> parser_exit + args \<times> string list" where
  "parse_known_args arg_strings =
     (case classify arg_strings of
        Inl status \<Rightarrow> Inl status
      | Inr patterns \<Rightarrow>
         (case consume patterns defaults [] of
            Inl status \<Rightarrow> Inl status
          | Inr (ns, extras) \<Rightarrow>
             (case check_required ns of
                Inl status \<Rightarrow> Inl status
              | Inr parsed \<Rightarrow> Inr (parsed, extras))))"

definition parse_args :: "string list \<Rightarrow> parser_exit + args" where
  "parse_args arg_strings =
     (case parse_known_args arg_strings of
        Inl status \<Rightarrow> Inl status
      | Inr (parsed, argv) \<Rightarrow> if argv \<noteq> [] then Inl ErrorExit else Inr parsed)"

subsection \<open>The script\<close>

text \<open>
  How the process ends: \<^verbatim>\<open>SystemExit\<close> raised by the parser, an exception nobody
  caught (the interpreter prints the traceback and exits with status 1), or the end of
  the script.
\<close>

datatype outcome = SystemExit nat | Traceback error | Finished

fun exit_status :: "outcome \<Rightarrow> nat" where
  "exit_status (SystemExit status) = status"
| "exit_status (Traceback e) = 1"
| "exit_status Finished = 0"

text \<open>
  The help goes to standard output; its text is the parser's and is a parameter here.
  The usage message of an error goes to standard error, which the world does not hold.
\<close>

definition main :: "sdk \<Rightarrow> string list \<Rightarrow> string list \<Rightarrow> world \<Rightarrow> world \<times> outcome" where
  "main s format_help argv w =
     (case parse_args argv of
        Inl HelpExit \<Rightarrow> (w\<lparr>stdout := stdout w @ format_help\<rparr>, SystemExit 0)
      | Inl ErrorExit \<Rightarrow> (w, SystemExit 2)
      | Inr parsed \<Rightarrow>
         (case edit_image_mask_free s (project_id parsed) (location parsed) (input_file parsed)
                 (output_file parsed) (prompt parsed) w of
            (w', Inl e) \<Rightarrow> (w', Traceback e)
          | (w', Inr images) \<Rightarrow> (w', Finished)))"

subsection \<open>Reading a command line\<close>

text \<open>
  The option an argument selects, whether spelled in full, abbreviated, or joined to its
  value with \<^verbatim>\<open>=\<close>.
\<close>

definition reads_as :: "string \<Rightarrow> action option" where
  "reads_as arg_string =
     (case parse_optional arg_string of
        Inr (Some (Some action, _, _, _)) \<Rightarrow> Some action
      | _ \<Rightarrow> None)"

text \<open>
  The value the command line gives for an option: that of its last occurrence, which is
  the explicit argument, or else the argument that follows.
\<close>

fun given :: "dest \<Rightarrow> string list \<Rightarrow> string option" where
  "given d [] = None"
| "given d (arg_string # rest) =
     (case given d rest of
        Some v \<Rightarrow> Some v
      | None \<Rightarrow>
         (case parse_optional arg_string of
            Inr (Some (Some (Store d'), _, _, explicit_arg)) \<Rightarrow>
              if d' = d
              then (case explicit_arg of
                      Some v \<Rightarrow> Some v
                    | None \<Rightarrow> (case rest of v # _ \<Rightarrow> Some v | [] \<Rightarrow> None))
              else None
          | _ \<Rightarrow> None))"

text \<open>
  The same reading on a classified command line: the value the last occurrence of an
  option stores.
\<close>

fun stored :: "dest \<Rightarrow> (string \<times> pattern) list \<Rightarrow> string option" where
  "stored d [] = None"
| "stored d ((arg_string, pat) # rest) =
     (case stored d rest of
        Some v \<Rightarrow> Some v
      | None \<Rightarrow>
         (case pat of
            Optional (Some (Store d'), _, _, explicit_arg) \<Rightarrow>
              if d' = d
              then (case explicit_arg of
                      Some v \<Rightarrow> Some v
                    | None \<Rightarrow> (case rest of (v, _) # _ \<Rightarrow> Some v | [] \<Rightarrow> None))
              else None
          | _ \<Rightarrow> None))"

text \<open>A command line with every required option and no other.\<close>

definition full :: "string list" where
  "full = [''--project_id'', ''my-project'', ''--input_file'', ''in.png'',
           ''--output_file'', ''out.png'', ''--prompt'', ''a dog'']"

text \<open>The same without \<^verbatim>\<open>--prompt\<close>.\<close>

definition without_prompt :: "string list" where
  "without_prompt = [''--project_id'', ''my-project'', ''--input_file'', ''in.png'',
                     ''--output_file'', ''out.png'']"

section \<open>Properties of the function\<close>

subsection \<open>Every outcome of a run\<close>

lemmas op_defs = and_then_def return_io_def vertexai_init_def from_pretrained_def
  load_from_file_def edit_image_def getitem_def save_def print_def record_call_def

text \<open>What a load returns does not depend on the log.\<close>

lemma loaded_calls [simp]: "loaded s (w\<lparr>calls := cs\<rparr>) i = loaded s w i"
  by (simp add: loaded_def split: option.splits)

text \<open>
  The function has eight ways to end, one per reply that can stop it and one for success.
  Each determines the log, the files, the output and the result.
\<close>

lemma run_cases:
  "edit_image_mask_free s p l i out q w =
    (case init_reply s p l of
       Some m \<Rightarrow> (w\<lparr>calls := calls w @ [Init p l]\<rparr>, Inl (InitError m))
     | None \<Rightarrow>
    (case from_pretrained_reply s ''imagegeneration@002'' of
       Some m \<Rightarrow> (w\<lparr>calls := calls w @ [Init p l, FromPretrained ''imagegeneration@002'']\<rparr>,
                  Inl (ModelError m))
     | None \<Rightarrow>
    (case loaded s w i of
       Inl e \<Rightarrow> (w\<lparr>calls := calls w @ [Init p l, FromPretrained ''imagegeneration@002'',
                     LoadFromFile i]\<rparr>, Inl e)
     | Inr base \<Rightarrow>
    (case edit_image_reply s ''imagegeneration@002'' base q 1 21 1 of
       Inl m \<Rightarrow> (w\<lparr>calls := calls w @ [Init p l, FromPretrained ''imagegeneration@002'',
                     LoadFromFile i, EditImage ''imagegeneration@002'' base q 1 21 1]\<rparr>,
                 Inl (EditError m))
     | Inr images \<Rightarrow>
    (if [] \<in> set (map image_bytes images)
     then (w\<lparr>calls := calls w @ [Init p l, FromPretrained ''imagegeneration@002'',
                     LoadFromFile i, EditImage ''imagegeneration@002'' base q 1 21 1]\<rparr>,
           Inl (EditError ''Either image_bytes or gcs_uri must be provided.''))
     else
    (case images of
       [] \<Rightarrow> (w\<lparr>calls := calls w @ [Init p l, FromPretrained ''imagegeneration@002'',
                     LoadFromFile i, EditImage ''imagegeneration@002'' base q 1 21 1,
                     GetItem 0]\<rparr>, Inl IndexError)
     | img # _ \<Rightarrow>
    (case save_reply s img out of
       Inl m \<Rightarrow> (w\<lparr>calls := calls w @ [Init p l, FromPretrained ''imagegeneration@002'',
                     LoadFromFile i, EditImage ''imagegeneration@002'' base q 1 21 1,
                     GetItem 0, Save img out]\<rparr>, Inl (SaveError m))
     | Inr written \<Rightarrow>
         (w\<lparr>calls := calls w @ [Init p l, FromPretrained ''imagegeneration@002'',
                     LoadFromFile i, EditImage ''imagegeneration@002'' base q 1 21 1,
                     GetItem 0, Save img out, GetItem 0,
                     Print (created_message (length (image_bytes img)))],
            files := (files w)(out \<mapsto> written),
            stdout := stdout w @ [created_message (length (image_bytes img))]\<rparr>,
          Inr images))))))))"
  unfolding edit_image_mask_free_def
  by (simp add: op_defs Let_def split: option.splits sum.splits list.splits)

lemma calls_made_append [simp]: "calls_made w (w\<lparr>calls := calls w @ cs\<rparr>) = cs"
  by (simp add: calls_made_def)

lemma calls_made_append_more [simp]:
  "calls_made w (w\<lparr>calls := calls w @ cs, files := f, stdout := lines\<rparr>) = cs"
  by (simp add: calls_made_def)

lemma loaded_error: "loaded s w i = Inl e \<Longrightarrow> e = LoadError i"
  by (auto simp add: loaded_def split: option.splits if_splits)

lemma loaded_in: "loaded good_sdk start ''in.png'' = Inr (Image [0x89, 0x50])"
  by (simp add: loaded_def good_sdk_def start_def)

lemma loaded_samples:
  "loaded good_sdk start ''missing.png'' = Inl (LoadError ''missing.png'')
   \<and> loaded good_sdk start ''empty.png'' = Inl (LoadError ''empty.png'')
   \<and> loaded good_sdk start ''gs://bucket/missing.png''
       = Inr (GcsImage ''gs://bucket/missing.png'')"
  by (simp add: loaded_def good_sdk_def start_def)

lemmas sample_defs = good_sdk_def start_def no_credentials_sdk_def no_model_sdk_def
  quota_sdk_def empty_sdk_def two_sdk_def read_only_sdk_def loaded_def

subsection \<open>The model addressed\<close>

text \<open>
  Claim C9. Every run of \<open>edit_image_mask_free\<close> addresses one fixed model: whatever the
  SDK replies and whatever the five arguments are, every model name in the calls of the
  run (the lookup and the edit request made on the model looked up) is the constant
  \<open>imagegeneration@002\<close>, and the lookup under that name is made whenever client
  initialisation returns.
\<close>

theorem model_is_fixed:
  "set (List.map_filter model_of (calls_made w (fst (edit_image_mask_free s p l i out q w))))
     \<subseteq> {''imagegeneration@002''}
   \<and> (init_reply s p l = None \<longrightarrow>
        FromPretrained ''imagegeneration@002''
          \<in> set (calls_made w (fst (edit_image_mask_free s p l i out q w))))"
  by (simp add: run_cases split: option.splits sum.splits list.splits)

theorem model_is_fixed_witness:
  "init_reply good_sdk ''p'' ''us-central1'' = None \<and>
   FromPretrained ''imagegeneration@002''
     \<in> set (calls_made start
          (fst (edit_image_mask_free good_sdk ''p'' ''us-central1'' ''in.png'' ''out.png''
                  ''a dog'' start)))"
  using model_is_fixed
    [of start good_sdk "''p''" "''us-central1''" "''in.png''" "''out.png''" "''a dog''"]
  by (simp add: good_sdk_def)

subsection \<open>The script around the function\<close>

lemma calls_made_same [simp]: "calls_made w w = []"
  by (simp add: calls_made_def)

lemma calls_made_stdout [simp]: "calls_made w (w\<lparr>stdout := lines\<rparr>) = []"
  by (simp add: calls_made_def)

lemma run_parameters:
  "set (List.map_filter parameters_of (calls_made w (fst (edit_image_mask_free s p l i out q w))))
     \<subseteq> {(1, 21, 1)}"
  by (simp add: run_cases split: option.splits sum.splits list.splits)

lemma main_cases:
  "main s h argv w =
     (case parse_args argv of
        Inl HelpExit \<Rightarrow> (w\<lparr>stdout := stdout w @ h\<rparr>, SystemExit 0)
      | Inl ErrorExit \<Rightarrow> (w, SystemExit 2)
      | Inr parsed \<Rightarrow>
          (fst (edit_image_mask_free s (project_id parsed) (location parsed) (input_file parsed)
                 (output_file parsed) (prompt parsed) w),
           case snd (edit_image_mask_free s (project_id parsed) (location parsed)
                       (input_file parsed) (output_file parsed) (prompt parsed) w) of
             Inl e \<Rightarrow> Traceback e | Inr images \<Rightarrow> Finished))"
  by (simp add: main_def split: sum.splits parser_exit.splits prod.splits)

subsection \<open>The generation parameters\<close>

text \<open>
  Claim C1. In every run of \<open>edit_image_mask_free\<close>, and in every run of the script
  whatever its command line, each edit request in the log carries seed 1, guidance scale
  21 and one image: the three are literals of line 50 to 54 and no argument or option
  reaches them. When client initialisation and model lookup return and the input image
  loads, exactly one edit request is made, with these parameters.
\<close>

theorem parameters_fixed:
  "set (List.map_filter parameters_of
          (calls_made w (fst (edit_image_mask_free s p l i out q w)))) \<subseteq> {(1, 21, 1)}
   \<and> set (List.map_filter parameters_of (calls_made w (fst (main s h argv w))))
         \<subseteq> {(1, 21, 1)}
   \<and> (init_reply s p l = None \<and> from_pretrained_reply s ''imagegeneration@002'' = None
        \<and> (\<exists>base. loaded s w i = Inr base) \<longrightarrow>
       List.map_filter parameters_of
          (calls_made w (fst (edit_image_mask_free s p l i out q w))) = [(1, 21, 1)])"
proof (intro conjI)
  show "set (List.map_filter parameters_of
          (calls_made w (fst (edit_image_mask_free s p l i out q w)))) \<subseteq> {(1, 21, 1)}"
    by (rule run_parameters)
  show "set (List.map_filter parameters_of (calls_made w (fst (main s h argv w))))
         \<subseteq> {(1, 21, 1)}"
    using run_parameters
    by (simp add: main_cases split: sum.splits parser_exit.splits)
  show "init_reply s p l = None \<and> from_pretrained_reply s ''imagegeneration@002'' = None
        \<and> (\<exists>base. loaded s w i = Inr base) \<longrightarrow>
       List.map_filter parameters_of
          (calls_made w (fst (edit_image_mask_free s p l i out q w))) = [(1, 21, 1)]"
    by (auto simp add: run_cases split: option.splits sum.splits list.splits)
qed

theorem parameters_fixed_witness:
  "init_reply good_sdk ''my-project'' ''us-central1'' = None
   \<and> from_pretrained_reply good_sdk ''imagegeneration@002'' = None
   \<and> loaded good_sdk start ''in.png'' = Inr (Image [0x89, 0x50])
   \<and> List.map_filter parameters_of
        (calls_made start
           (fst (edit_image_mask_free good_sdk ''my-project'' ''us-central1'' ''in.png''
                   ''out.png'' ''a dog'' start))) = [(1, 21, 1)]"
  using parameters_fixed
    [of start good_sdk "''my-project''" "''us-central1''" "''in.png''" "''out.png''" "''a dog''"]
    loaded_in
  by (simp add: good_sdk_def)

subsection \<open>The image saved and the value returned\<close>

text \<open>
  Claim C2, as amended. In a successful run the response has a first element, the one
  save of the run writes that element (index 0) to the output path, and the value
  returned is the response collection itself, as the service gave it.
\<close>

theorem saved_first_returned_response:
  "edit_image_mask_free s p l i out q w = (w', Inr result) \<Longrightarrow>
     result \<noteq> []
     \<and> (\<exists>base. loaded s w i = Inr base
            \<and> edit_image_reply s ''imagegeneration@002'' base q 1 21 1 = Inr result)
     \<and> List.map_filter saved_by (calls_made w w') = [(result ! 0, out)]"
  by (auto simp add: run_cases split: option.splits sum.splits list.splits if_splits)

theorem saved_first_returned_response_witness:
  "snd (edit_image_mask_free good_sdk ''my-project'' ''us-central1'' ''in.png'' ''out.png''
          ''a dog'' start) = Inr [edited]
   \<and> List.map_filter saved_by
        (calls_made start
           (fst (edit_image_mask_free good_sdk ''my-project'' ''us-central1'' ''in.png''
                   ''out.png'' ''a dog'' start)))
       = [(edited, ''out.png'')]"
  using saved_first_returned_response
    [of good_sdk "''my-project''" "''us-central1''" "''in.png''" "''out.png''" "''a dog''" start
        "fst (edit_image_mask_free good_sdk ''my-project'' ''us-central1'' ''in.png''
                ''out.png'' ''a dog'' start)" "[edited]"]
  by (simp add: run_cases sample_defs edited_def)

text \<open>
  The claim as stated says the value returned is the first image. Line 64 returns
  \<^verbatim>\<open>images\<close>, the whole response: with a service that answers with two images the
  function returns both, which is not the first image alone.
\<close>

theorem returned_value_counterexample:
  "snd (edit_image_mask_free two_sdk ''my-project'' ''us-central1'' ''in.png'' ''out.png''
          ''a dog'' start) = Inr [edited, GeneratedImage [0x00]]
   \<and> [edited, GeneratedImage [0x00]] \<noteq> [[edited, GeneratedImage [0x00]] ! 0]"
  by (simp add: run_cases sample_defs edited_def)

subsection \<open>The order of file access and the remote call\<close>

text \<open>
  Claim C7. The calls of a run are an initial stretch of the program order, so the input
  file is read before the edit request and the output is saved after it: an edit request
  has a load before it and a save has an edit request before it. A save happens only if
  the edit request returned a response, and without a save the files are untouched.
\<close>

theorem file_io_around_remote_call:
  "map step_of (calls_made w (fst (edit_image_mask_free s p l i out q w)))
     = take (length (calls_made w (fst (edit_image_mask_free s p l i out q w)))) program_order
   \<and> precedes LoadStep EditStep (calls_made w (fst (edit_image_mask_free s p l i out q w)))
   \<and> precedes EditStep SaveStep (calls_made w (fst (edit_image_mask_free s p l i out q w)))
   \<and> (SaveStep \<in> step_of ` set (calls_made w (fst (edit_image_mask_free s p l i out q w)))
        \<longrightarrow> (\<exists>base images. loaded s w i = Inr base
               \<and> edit_image_reply s ''imagegeneration@002'' base q 1 21 1 = Inr images))
   \<and> (SaveStep \<notin> step_of ` set (calls_made w (fst (edit_image_mask_free s p l i out q w)))
        \<longrightarrow> files (fst (edit_image_mask_free s p l i out q w)) = files w)"
  by (simp add: run_cases program_order_def split: option.splits sum.splits list.splits)

theorem file_io_around_remote_call_witness:
  "SaveStep \<in> step_of ` set (calls_made start
       (fst (edit_image_mask_free good_sdk ''my-project'' ''us-central1'' ''in.png'' ''out.png''
               ''a dog'' start)))
   \<and> (\<exists>base images. loaded good_sdk start ''in.png'' = Inr base
          \<and> edit_image_reply good_sdk ''imagegeneration@002'' base ''a dog'' 1 21 1
              = Inr images)
   \<and> SaveStep \<notin> step_of ` set (calls_made start
       (fst (edit_image_mask_free quota_sdk ''my-project'' ''us-central1'' ''in.png'' ''out.png''
               ''a dog'' start)))
   \<and> files (fst (edit_image_mask_free quota_sdk ''my-project'' ''us-central1'' ''in.png''
                    ''out.png'' ''a dog'' start)) = files start"
  using file_io_around_remote_call
    [of start good_sdk "''my-project''" "''us-central1''" "''in.png''" "''out.png''" "''a dog''"]
    file_io_around_remote_call
    [of start quota_sdk "''my-project''" "''us-central1''" "''in.png''" "''out.png''" "''a dog''"]
  by (simp add: run_cases sample_defs edited_def calls_made_def)

subsection \<open>Indexing the response\<close>

text \<open>
  Claim C10. The response is indexed at 0 only. The run ends with
  \<^verbatim>\<open>IndexError\<close> exactly when the edit request was reached and the service returned
  an empty collection; with at least one image the index is in bounds. When it does end
  with \<^verbatim>\<open>IndexError\<close>, no save was called, no file was written and nothing was
  printed.
\<close>

theorem index_zero_in_bounds:
  "set (List.map_filter index_of (calls_made w (fst (edit_image_mask_free s p l i out q w))))
     \<subseteq> {0}
   \<and> (snd (edit_image_mask_free s p l i out q w) = Inl IndexError \<longleftrightarrow>
        init_reply s p l = None \<and> from_pretrained_reply s ''imagegeneration@002'' = None
        \<and> (\<exists>base. loaded s w i = Inr base
               \<and> edit_image_reply s ''imagegeneration@002'' base q 1 21 1 = Inr []))
   \<and> (\<forall>base images. loaded s w i = Inr base
          \<and> edit_image_reply s ''imagegeneration@002'' base q 1 21 1 = Inr images
          \<and> 1 \<le> length images
          \<longrightarrow> snd (edit_image_mask_free s p l i out q w) \<noteq> Inl IndexError)
   \<and> (snd (edit_image_mask_free s p l i out q w) = Inl IndexError \<longrightarrow>
        files (fst (edit_image_mask_free s p l i out q w)) = files w
        \<and> stdout (fst (edit_image_mask_free s p l i out q w)) = stdout w
        \<and> SaveStep \<notin> step_of ` set (calls_made w (fst (edit_image_mask_free s p l i out q w))))"
  by (auto simp add: run_cases split: option.splits sum.splits list.splits if_splits
           dest: loaded_error)

theorem index_zero_in_bounds_witness:
  "snd (edit_image_mask_free empty_sdk ''my-project'' ''us-central1'' ''in.png'' ''out.png''
          ''a dog'' start) = Inl IndexError
   \<and> files (fst (edit_image_mask_free empty_sdk ''my-project'' ''us-central1'' ''in.png''
                    ''out.png'' ''a dog'' start)) = files start
   \<and> loaded good_sdk start ''in.png'' = Inr (Image [0x89, 0x50])
   \<and> edit_image_reply good_sdk ''imagegeneration@002'' (Image [0x89, 0x50]) ''a dog'' 1 21 1
        = Inr [edited]
   \<and> 1 \<le> length [edited]
   \<and> snd (edit_image_mask_free good_sdk ''my-project'' ''us-central1'' ''in.png'' ''out.png''
             ''a dog'' start) \<noteq> Inl IndexError"
  using index_zero_in_bounds
    [of start empty_sdk "''my-project''" "''us-central1''" "''in.png''" "''out.png''" "''a dog''"]
    index_zero_in_bounds
    [of start good_sdk "''my-project''" "''us-central1''" "''in.png''" "''out.png''" "''a dog''"]
  by (simp add: run_cases sample_defs edited_def)

subsection \<open>The decimal rendering\<close>

lemma str_decimal_snoc: "decimal (ds @ [c]) = 10 * decimal ds + (of_char c - 48)"
  by (simp add: decimal_def)

lemma of_char_digit: "d < 10 \<Longrightarrow> of_char (digit d) = (48 + d :: nat)"
  by (auto simp add: digit_def less_Suc_eq numeral_nat nth_Cons')

lemma decimal_str: "decimal (str n) = n"
proof (induction n rule: str.induct)
  case (1 n)
  show ?case
  proof (cases "n < 10")
    case True
    then show ?thesis
      by (subst str.simps) (simp add: decimal_def of_char_digit)
  next
    case False
    with 1 have "decimal (str (n div 10)) = n div 10" by simp
    with False show ?thesis
      by (subst str.simps) (simp add: str_decimal_snoc of_char_digit)
  qed
qed

subsection \<open>The output of a successful run\<close>

text \<open>
  Claim C8. In a successful run the output path holds what the SDK's save wrote, and
  exactly one line is added to standard output:
  \<^verbatim>\<open>Created output image using N bytes\<close>, where \<open>N\<close> is the decimal rendering of
  the length of the first image's byte buffer. \<open>N\<close> is positive: the SDK builds no image
  from an empty buffer, so a response that reaches the print has none.
\<close>

theorem success_output:
  "edit_image_mask_free s p l i out q w = (w', Inr result) \<Longrightarrow>
     (\<exists>written. save_reply s (result ! 0) out = Inr written \<and> files w' out = Some written)
     \<and> stdout w' = stdout w @ [''Created output image using ''
                                  @ str (length (image_bytes (result ! 0))) @ '' bytes'']
     \<and> decimal (str (length (image_bytes (result ! 0)))) = length (image_bytes (result ! 0))
     \<and> 0 < length (image_bytes (result ! 0))"
  by (auto simp add: run_cases decimal_str created_message_def
           split: option.splits sum.splits list.splits if_splits)

theorem success_output_witness:
  "snd (edit_image_mask_free good_sdk ''my-project'' ''us-central1'' ''in.png'' ''out.png''
          ''a dog'' start) = Inr [edited]
   \<and> files (fst (edit_image_mask_free good_sdk ''my-project'' ''us-central1'' ''in.png''
                    ''out.png'' ''a dog'' start)) ''out.png'' = Some (image_bytes edited)
   \<and> stdout (fst (edit_image_mask_free good_sdk ''my-project'' ''us-central1'' ''in.png''
                     ''out.png'' ''a dog'' start)) = [''Created output image using 5 bytes'']
   \<and> 0 < length (image_bytes edited)"
  using success_output
    [of good_sdk "''my-project''" "''us-central1''" "''in.png''" "''out.png''" "''a dog''" start
        "fst (edit_image_mask_free good_sdk ''my-project'' ''us-central1'' ''in.png''
                ''out.png'' ''a dog'' start)" "[edited]"]
  by (simp add: run_cases sample_defs edited_def created_message_def str.simps digit_def)

subsection \<open>A missing input file\<close>

text \<open>
  Claim C5, as amended. When the input location is a local path (not one the SDK reads
  as a Cloud Storage URI) and names no file, the run fails at the load, or at one of
  the two statements before it when that statement raises (client initialisation,
  line 41, and model lookup, line 43). In every case no network call is made, the edit
  request in particular; no file is written and nothing is printed. When the two
  earlier statements return, the failure is the load's and the load is the last call
  of the run.
\<close>

theorem missing_input_stops_before_edit:
  "storage_uri s i = None \<Longrightarrow> files w i = None \<Longrightarrow>
     (case snd (edit_image_mask_free s p l i out q w) of
        Inl e \<Rightarrow> raised_by e \<in> {InitStep, ModelStep, LoadStep}
      | Inr images \<Rightarrow> False)
     \<and> filter network_call (calls_made w (fst (edit_image_mask_free s p l i out q w))) = []
     \<and> EditStep \<notin> step_of ` set (calls_made w (fst (edit_image_mask_free s p l i out q w)))
     \<and> files (fst (edit_image_mask_free s p l i out q w)) = files w
     \<and> stdout (fst (edit_image_mask_free s p l i out q w)) = stdout w
     \<and> (init_reply s p l = None \<and> from_pretrained_reply s ''imagegeneration@002'' = None
          \<longrightarrow> edit_image_mask_free s p l i out q w
               = (w\<lparr>calls := calls w @ [Init p l, FromPretrained ''imagegeneration@002'',
                                         LoadFromFile i]\<rparr>,
                  Inl (LoadError i)))
     \<and> (\<forall>m. init_reply s p l = Some m
          \<longrightarrow> snd (edit_image_mask_free s p l i out q w) = Inl (InitError m))
     \<and> (\<forall>m. init_reply s p l = None
              \<and> from_pretrained_reply s ''imagegeneration@002'' = Some m
          \<longrightarrow> snd (edit_image_mask_free s p l i out q w) = Inl (ModelError m))"
  by (simp add: run_cases loaded_def split: option.splits sum.splits list.splits)

theorem missing_input_stops_before_edit_witness:
  "storage_uri good_sdk ''missing.png'' = None
   \<and> files start ''missing.png'' = None
   \<and> init_reply good_sdk ''my-project'' ''us-central1'' = None
   \<and> from_pretrained_reply good_sdk ''imagegeneration@002'' = None
   \<and> edit_image_mask_free good_sdk ''my-project'' ''us-central1'' ''missing.png'' ''out.png''
        ''a dog'' start
      = (start\<lparr>calls := calls start @ [Init ''my-project'' ''us-central1'',
                    FromPretrained ''imagegeneration@002'', LoadFromFile ''missing.png'']\<rparr>,
         Inl (LoadError ''missing.png''))
   \<and> init_reply no_credentials_sdk ''my-project'' ''us-central1'' = Some ''no credentials''
   \<and> snd (edit_image_mask_free no_credentials_sdk ''my-project'' ''us-central1''
             ''missing.png'' ''out.png'' ''a dog'' start) = Inl (InitError ''no credentials'')
   \<and> from_pretrained_reply no_model_sdk ''imagegeneration@002'' = Some ''not found''
   \<and> snd (edit_image_mask_free no_model_sdk ''my-project'' ''us-central1''
             ''missing.png'' ''out.png'' ''a dog'' start) = Inl (ModelError ''not found'')"
  using missing_input_stops_before_edit
    [of good_sdk "''missing.png''" start "''my-project''" "''us-central1''" "''out.png''"
        "''a dog''"]
    missing_input_stops_before_edit
    [of no_credentials_sdk "''missing.png''" start "''my-project''" "''us-central1''"
        "''out.png''" "''a dog''"]
    missing_input_stops_before_edit
    [of no_model_sdk "''missing.png''" start "''my-project''" "''us-central1''" "''out.png''"
        "''a dog''"]
  by (simp add: good_sdk_def start_def no_credentials_sdk_def no_model_sdk_def)

text \<open>
  The claim as stated says that whenever the input names no file the process fails when
  loading the input image. It does not in two cases. The load is the third statement:
  when the model lookup raises, the run ends there and the load is never attempted. And
  a location the SDK reads as a Cloud Storage URI is not looked up locally at all: the
  load returns and the edit request is made, whether or not a file of that name exists.
\<close>

theorem fails_at_load_counterexample:
  "files start ''missing.png'' = None
   \<and> snd (edit_image_mask_free no_model_sdk ''my-project'' ''us-central1'' ''missing.png''
             ''out.png'' ''a dog'' start) = Inl (ModelError ''not found'')
   \<and> calls (fst (edit_image_mask_free no_model_sdk ''my-project'' ''us-central1''
                    ''missing.png'' ''out.png'' ''a dog'' start))
       = [Init ''my-project'' ''us-central1'', FromPretrained ''imagegeneration@002'']
   \<and> files start ''gs://bucket/missing.png'' = None
   \<and> snd (edit_image_mask_free good_sdk ''my-project'' ''us-central1''
             ''gs://bucket/missing.png'' ''out.png'' ''a dog'' start) = Inr [edited]
   \<and> filter network_call
        (calls (fst (edit_image_mask_free good_sdk ''my-project'' ''us-central1''
                       ''gs://bucket/missing.png'' ''out.png'' ''a dog'' start)))
       = [EditImage ''imagegeneration@002'' (GcsImage ''gs://bucket/missing.png'') ''a dog''
            1 21 1]"
  by (simp add: run_cases sample_defs edited_def)

subsection \<open>Propagation of errors\<close>

lemma parse_args_full:
  "parse_args full
     = Inr \<lparr>project_id = ''my-project'', location = ''us-central1'', input_file = ''in.png'',
            output_file = ''out.png'', prompt = ''a dog''\<rparr>"
  by code_simp

text \<open>
  Claim C6. Whichever step raises (client initialisation, model lookup, input load, edit
  request, output save), the run of the function ends with that step's error: the step
  is the last call of the run and was made once, every step before it was made once in
  program order, no later step runs, no file is written and nothing is printed. In
  particular a failed edit request ends the run before the save and the print. Whenever
  a run ends with an error, its calls are the program order up to the step that raised
  it. The script passes the error on: it ends with the traceback of the same error and
  exit status 1, in the world the function left.
\<close>

theorem errors_propagate:
  "(init_reply s p l = Some m1 \<longrightarrow>
      edit_image_mask_free s p l i out q w
        = (w\<lparr>calls := calls w @ [Init p l]\<rparr>, Inl (InitError m1)))
   \<and> (init_reply s p l = None \<and> from_pretrained_reply s ''imagegeneration@002'' = Some m2 \<longrightarrow>
      edit_image_mask_free s p l i out q w
        = (w\<lparr>calls := calls w @ [Init p l, FromPretrained ''imagegeneration@002'']\<rparr>,
           Inl (ModelError m2)))
   \<and> (init_reply s p l = None \<and> from_pretrained_reply s ''imagegeneration@002'' = None
        \<and> loaded s w i = Inl e3 \<longrightarrow>
      edit_image_mask_free s p l i out q w
        = (w\<lparr>calls := calls w @ [Init p l, FromPretrained ''imagegeneration@002'',
                LoadFromFile i]\<rparr>, Inl e3))
   \<and> (init_reply s p l = None \<and> from_pretrained_reply s ''imagegeneration@002'' = None
        \<and> loaded s w i = Inr base
        \<and> edit_image_reply s ''imagegeneration@002'' base q 1 21 1 = Inl m4 \<longrightarrow>
      edit_image_mask_free s p l i out q w
        = (w\<lparr>calls := calls w @ [Init p l, FromPretrained ''imagegeneration@002'',
                LoadFromFile i, EditImage ''imagegeneration@002'' base q 1 21 1]\<rparr>,
           Inl (EditError m4)))
   \<and> (init_reply s p l = None \<and> from_pretrained_reply s ''imagegeneration@002'' = None
        \<and> loaded s w i = Inr base
        \<and> edit_image_reply s ''imagegeneration@002'' base q 1 21 1 = Inr (img # rest)
        \<and> [] \<notin> set (map image_bytes (img # rest))
        \<and> save_reply s img out = Inl m5 \<longrightarrow>
      edit_image_mask_free s p l i out q w
        = (w\<lparr>calls := calls w @ [Init p l, FromPretrained ''imagegeneration@002'',
                LoadFromFile i, EditImage ''imagegeneration@002'' base q 1 21 1,
                GetItem 0, Save img out]\<rparr>,
           Inl (SaveError m5)))
   \<and> (snd (edit_image_mask_free s p l i out q w) = Inl e \<longrightarrow>
      map step_of (calls_made w (fst (edit_image_mask_free s p l i out q w)))
        = takeWhile (\<lambda>x. x \<noteq> raised_by e) program_order @ [raised_by e]
      \<and> files (fst (edit_image_mask_free s p l i out q w)) = files w
      \<and> stdout (fst (edit_image_mask_free s p l i out q w)) = stdout w)
   \<and> (parse_args argv = Inr parsed
        \<and> edit_image_mask_free s (project_id parsed) (location parsed) (input_file parsed)
             (output_file parsed) (prompt parsed) w = (w', Inl e') \<longrightarrow>
      main s h argv w = (w', Traceback e') \<and> exit_status (snd (main s h argv w)) = 1)"
proof (intro conjI impI)
  assume "snd (edit_image_mask_free s p l i out q w) = Inl e"
  then show "map step_of (calls_made w (fst (edit_image_mask_free s p l i out q w)))
        = takeWhile (\<lambda>x. x \<noteq> raised_by e) program_order @ [raised_by e]"
    and "files (fst (edit_image_mask_free s p l i out q w)) = files w"
    and "stdout (fst (edit_image_mask_free s p l i out q w)) = stdout w"
    by (auto simp add: run_cases program_order_def
             split: option.splits sum.splits list.splits if_splits dest: loaded_error)
next
  assume "parse_args argv = Inr parsed
        \<and> edit_image_mask_free s (project_id parsed) (location parsed) (input_file parsed)
             (output_file parsed) (prompt parsed) w = (w', Inl e')"
  then show "main s h argv w = (w', Traceback e')"
    and "exit_status (snd (main s h argv w)) = 1"
    by (simp_all add: main_def)
qed (simp_all add: run_cases)

theorem errors_propagate_witness:
  "edit_image_mask_free no_credentials_sdk ''my-project'' ''us-central1'' ''in.png''
     ''out.png'' ''a dog'' start
     = (start\<lparr>calls := calls start @ [Init ''my-project'' ''us-central1'']\<rparr>,
        Inl (InitError ''no credentials''))
   \<and> edit_image_mask_free no_model_sdk ''my-project'' ''us-central1'' ''in.png''
       ''out.png'' ''a dog'' start
     = (start\<lparr>calls := calls start @ [Init ''my-project'' ''us-central1'',
                   FromPretrained ''imagegeneration@002'']\<rparr>,
        Inl (ModelError ''not found''))
   \<and> edit_image_mask_free good_sdk ''my-project'' ''us-central1'' ''missing.png''
       ''out.png'' ''a dog'' start
     = (start\<lparr>calls := calls start @ [Init ''my-project'' ''us-central1'',
                   FromPretrained ''imagegeneration@002'', LoadFromFile ''missing.png'']\<rparr>,
        Inl (LoadError ''missing.png''))
   \<and> edit_image_mask_free quota_sdk ''my-project'' ''us-central1'' ''in.png''
       ''out.png'' ''a dog'' start
     = (start\<lparr>calls := calls start @ [Init ''my-project'' ''us-central1'',
                   FromPretrained ''imagegeneration@002'', LoadFromFile ''in.png'',
                   EditImage ''imagegeneration@002'' (Image [0x89, 0x50]) ''a dog'' 1 21 1]\<rparr>,
        Inl (EditError ''quota exceeded''))
   \<and> edit_image_mask_free read_only_sdk ''my-project'' ''us-central1'' ''in.png''
       ''out.png'' ''a dog'' start
     = (start\<lparr>calls := calls start @ [Init ''my-project'' ''us-central1'',
                   FromPretrained ''imagegeneration@002'', LoadFromFile ''in.png'',
                   EditImage ''imagegeneration@002'' (Image [0x89, 0x50]) ''a dog'' 1 21 1,
                   GetItem 0, Save edited ''out.png'']\<rparr>,
        Inl (SaveError ''read-only file system''))
   \<and> map step_of (calls_made start
          (fst (edit_image_mask_free quota_sdk ''my-project'' ''us-central1'' ''in.png''
                  ''out.png'' ''a dog'' start)))
       = [InitStep, ModelStep, LoadStep, EditStep]
   \<and> snd (main quota_sdk [] full start) = Traceback (EditError ''quota exceeded'')
   \<and> exit_status (snd (main quota_sdk [] full start)) = 1"
  using errors_propagate
    [where s = no_credentials_sdk and p = "''my-project''" and l = "''us-central1''"
       and i = "''in.png''" and out = "''out.png''" and q = "''a dog''" and w = start
       and ?m1.0 = "''no credentials''"]
    errors_propagate
    [where s = no_model_sdk and p = "''my-project''" and l = "''us-central1''"
       and i = "''in.png''" and out = "''out.png''" and q = "''a dog''" and w = start
       and ?m2.0 = "''not found''"]
    errors_propagate
    [where s = good_sdk and p = "''my-project''" and l = "''us-central1''"
       and i = "''missing.png''" and out = "''out.png''" and q = "''a dog''" and w = start
       and ?e3.0 = "LoadError ''missing.png''"]
    errors_propagate
    [where s = quota_sdk and p = "''my-project''" and l = "''us-central1''"
       and i = "''in.png''" and out = "''out.png''" and q = "''a dog''" and w = start
       and base = "Image [0x89, 0x50]" and ?m4.0 = "''quota exceeded''"
       and e = "EditError ''quota exceeded''" and e' = "EditError ''quota exceeded''"
       and argv = full and h = "[]"
       and parsed = "\<lparr>project_id = ''my-project'', location = ''us-central1'',
                      input_file = ''in.png'', output_file = ''out.png'',
                      prompt = ''a dog''\<rparr>"
       and w' = "fst (edit_image_mask_free quota_sdk ''my-project'' ''us-central1''
                        ''in.png'' ''out.png'' ''a dog'' start)"]
    errors_propagate
    [where s = read_only_sdk and p = "''my-project''" and l = "''us-central1''"
       and i = "''in.png''" and out = "''out.png''" and q = "''a dog''" and w = start
       and base = "Image [0x89, 0x50]" and img = edited and rest = "[]"
       and ?m5.0 = "''read-only file system''"]
  by (simp add: parse_args_full run_cases sample_defs edited_def program_order_def)

section \<open>Properties of the command line\<close>

subsection \<open>Consuming one option\<close>

lemma consume_optional_store:
  "consume_optional (Store d) os sep e following acc =
     (case e of
        Some x \<Rightarrow> Inr (acc @ [Stored d x], [], 0)
      | None \<Rightarrow>
         (case following of
            (v, Argument) # _ \<Rightarrow> Inr (acc @ [Stored d v], [], 1)
          | _ \<Rightarrow> Inl ErrorExit))"
  by (subst consume_optional.simps) (simp split: option.splits)

lemma consume_optional_help:
  "consume_optional action os sep e following acc = Inr (tuples, skipped, n) \<Longrightarrow>
     action = Help \<or> Helped \<in> set acc \<Longrightarrow> Helped \<in> set tuples"
proof (induction action os sep e following acc rule: consume_optional.induct)
  case (1 action option_string sep explicit_arg following action_tuples)
  show ?case
  proof (cases explicit_arg)
    case None
    with "1.prems" show ?thesis
      by (subst (asm) consume_optional.simps)
         (auto split: action.splits list.splits pattern.splits prod.splits)
  next
    case (Some x)
    show ?thesis
    proof (cases action)
      case (Store d)
      with Some "1.prems" show ?thesis
        by (subst (asm) consume_optional.simps) auto
    next
      case Help
      show ?thesis
      proof (cases x)
        case Nil
        with Some Help "1.prems" show ?thesis
          by (subst (asm) consume_optional.simps) simp
      next
        case (Cons c e')
        show ?thesis
        proof (cases "\<not> single_dash option_string
                      \<or> (sep \<noteq> None \<and> sep \<noteq> Some []) \<or> c = CHR ''-''")
          case True
          with Some Help Cons "1.prems" show ?thesis
            by (subst (asm) consume_optional.simps) (auto split: if_splits)
        next
          case False
          show ?thesis
          proof (cases "map_of option_string_actions [CHR ''-'', c]")
            case None
            with False Some Help Cons "1.prems" show ?thesis
              by (subst (asm) consume_optional.simps) (auto split: if_splits)
          next
            case (Some action')
            note found = Some
            have ih: "\<And>sep' e''. consume_optional action' [CHR ''-'', c] sep' e'' following
                         (action_tuples @ [Helped]) = Inr (tuples, skipped, n) \<Longrightarrow>
                       (e' = [] \<and> sep' = None \<and> e'' = None)
                       \<or> (e' \<noteq> [] \<and> hd e' = CHR ''='' \<and> sep' = Some ''='' \<and> e'' = Some (tl e'))
                       \<or> (e' \<noteq> [] \<and> hd e' \<noteq> CHR ''='' \<and> sep' = Some [] \<and> e'' = Some e') \<Longrightarrow>
                       Helped \<in> set tuples"
              using "1.IH" \<open>explicit_arg = Some x\<close> Help Cons False found by auto
            from False \<open>explicit_arg = Some x\<close> Help Cons found "1.prems"(1) show ?thesis
              by (subst (asm) consume_optional.simps) (auto split: if_splits intro: ih)
          qed
        qed
      qed
    qed
  qed
qed

lemma consume_optional_error:
  "consume_optional action os sep e following acc = Inl status \<Longrightarrow> status = ErrorExit"
proof (induction action os sep e following acc rule: consume_optional.induct)
  case (1 action option_string sep explicit_arg following action_tuples)
  show ?case
  proof (cases explicit_arg)
    case None
    with "1.prems" show ?thesis
      by (subst (asm) consume_optional.simps)
         (auto split: action.splits list.splits pattern.splits prod.splits)
  next
    case (Some x)
    show ?thesis
    proof (cases action)
      case (Store d)
      with Some "1.prems" show ?thesis
        by (subst (asm) consume_optional.simps) auto
    next
      case Help
      show ?thesis
      proof (cases x)
        case Nil
        with Some Help "1.prems" show ?thesis
          by (subst (asm) consume_optional.simps) simp
      next
        case (Cons c e')
        show ?thesis
        proof (cases "\<not> single_dash option_string
                      \<or> (sep \<noteq> None \<and> sep \<noteq> Some []) \<or> c = CHR ''-''")
          case True
          with Some Help Cons "1.prems" show ?thesis
            by (subst (asm) consume_optional.simps) (auto split: if_splits)
        next
          case False
          show ?thesis
          proof (cases "map_of option_string_actions [CHR ''-'', c]")
            case None
            with False Some Help Cons "1.prems" show ?thesis
              by (subst (asm) consume_optional.simps) (auto split: if_splits)
          next
            case (Some action')
            note found = Some
            have ih: "\<And>sep' e''. consume_optional action' [CHR ''-'', c] sep' e'' following
                         (action_tuples @ [Helped]) = Inl status \<Longrightarrow>
                       (e' = [] \<and> sep' = None \<and> e'' = None)
                       \<or> (e' \<noteq> [] \<and> hd e' = CHR ''='' \<and> sep' = Some ''='' \<and> e'' = Some (tl e'))
                       \<or> (e' \<noteq> [] \<and> hd e' \<noteq> CHR ''='' \<and> sep' = Some [] \<and> e'' = Some e') \<Longrightarrow>
                       status = ErrorExit"
              using "1.IH" \<open>explicit_arg = Some x\<close> Help Cons False found by auto
            from False \<open>explicit_arg = Some x\<close> Help Cons found "1.prems"(1) show ?thesis
              by (subst (asm) consume_optional.simps) (auto split: if_splits intro: ih)
          qed
        qed
      qed
    qed
  qed
qed

lemma take_actions_help: "Helped \<in> set tuples \<Longrightarrow> take_actions tuples ns = Inl HelpExit"
  by (induction tuples ns rule: take_actions.induct) auto

text \<open>
  What the second pass does with one option, by the kind of option: help ends the
  parse, a store with an explicit argument sets its attribute, a store without one
  takes the next argument or is an error.
\<close>

lemma consume_store_explicit:
  "consume ((a, Optional (Some (Store d), os, sep, Some x)) # rest) ns extras
     = consume rest (setattr d x ns) extras"
  by (simp add: consume_optional_store)

lemma consume_store_next:
  "consume ((a, Optional (Some (Store d), os, sep, None)) # rest) ns extras
     = (case rest of
          (v, Argument) # rest' \<Rightarrow> consume rest' (setattr d v ns) extras
        | _ \<Rightarrow> Inl ErrorExit)"
  by (simp add: consume_optional_store split: list.splits pattern.splits prod.splits)

lemma consume_help:
  "consume ((a, Optional (Some Help, os, sep, e)) # rest) ns extras = Inl HelpExit
   \<or> consume ((a, Optional (Some Help, os, sep, e)) # rest) ns extras = Inl ErrorExit"
proof (cases "consume_optional Help os sep e rest []")
  case (Inl status)
  then show ?thesis using consume_optional_error [OF Inl] by simp
next
  case (Inr r)
  obtain tuples skipped n where r: "r = (tuples, skipped, n)" by (cases r) auto
  with Inr have "Helped \<in> set tuples" using consume_optional_help by blast
  then have "take_actions tuples ns = Inl HelpExit" by (rule take_actions_help)
  with Inr r show ?thesis by simp
qed

declare consume.simps(5) [simp del]

subsection \<open>The second pass\<close>

lemma getattr_setattr: "getattr d (setattr d' v ns) = (if d = d' then Some v else getattr d ns)"
  by (cases d; cases d') simp_all

lemma consume_stored:
  "consume ps ns extras = Inr (ns', extras') \<Longrightarrow>
     getattr d ns' = (case stored d ps of Some v \<Rightarrow> Some v | None \<Rightarrow> getattr d ns)"
proof (induction ps ns extras rule: consume.induct)
  case (5 arg_string action option_string sep explicit_arg rest ns extras)
  show ?case
  proof (cases action)
    case Help
    with consume_help [of arg_string option_string sep explicit_arg rest ns extras] "5.prems"
    show ?thesis by auto
  next
    case (Store d')
    show ?thesis
    proof (cases explicit_arg)
      case (Some x)
      have "consume_optional action option_string sep explicit_arg rest []
              = Inr ([Stored d' x], [], 0)"
        using Store Some by (simp add: consume_optional_store)
      moreover have "take_actions [Stored d' x] ns = Inr (setattr d' x ns)" by simp
      moreover have "consume rest (setattr d' x ns) extras = Inr (ns', extras')"
        using "5.prems" Store Some by (simp add: consume_store_explicit)
      ultimately have "getattr d ns' = (case stored d (drop 0 rest) of Some v \<Rightarrow> Some v
                                         | None \<Rightarrow> getattr d (setattr d' x ns))"
        using "5.IH" [of "([Stored d' x], [], 0)" "[Stored d' x]" "([], 0)" "[]" 0
                         "setattr d' x ns"] by simp
      then show ?thesis using Store Some
        by (auto simp add: getattr_setattr split: option.splits)
    next
      case None
      from "5.prems" Store None obtain v rest' where rest: "rest = (v, Argument) # rest'"
        and run: "consume rest' (setattr d' v ns) extras = Inr (ns', extras')"
        by (auto simp add: consume_store_next split: list.splits pattern.splits prod.splits)
      have "consume_optional action option_string sep explicit_arg rest []
              = Inr ([Stored d' v], [], 1)"
        using Store None rest by (simp add: consume_optional_store)
      moreover have "take_actions [Stored d' v] ns = Inr (setattr d' v ns)" by simp
      moreover have "consume (drop 1 rest) (setattr d' v ns) (extras @ [])
                       = Inr (ns', extras')"
        using run rest by simp
      ultimately have "getattr d ns' = (case stored d (drop 1 rest) of Some v \<Rightarrow> Some v
                                         | None \<Rightarrow> getattr d (setattr d' v ns))"
        using "5.IH" [of "([Stored d' v], [], 1)" "[Stored d' v]" "([], 1)" "[]" 1
                         "setattr d' v ns"] by simp
      then show ?thesis using Store None rest
        by (auto simp add: getattr_setattr split: option.splits)
    qed
  qed
qed (auto split: option.splits)


text \<open>Induction over the second pass, one case per kind of argument.\<close>

lemma consume_induct [case_names Nil Argument Separator Unknown Help Explicit Next Missing]:
  assumes "\<And>ns extras. P [] ns extras"
    and "\<And>a rest ns extras. P rest ns (extras @ [a]) \<Longrightarrow> P ((a, Argument) # rest) ns extras"
    and "\<And>a rest ns extras. P rest ns (extras @ [a]) \<Longrightarrow> P ((a, Separator) # rest) ns extras"
    and "\<And>a os sep e rest ns extras. P rest ns (extras @ [a]) \<Longrightarrow>
           P ((a, Optional (None, os, sep, e)) # rest) ns extras"
    and "\<And>a os sep e rest ns extras. P ((a, Optional (Some Help, os, sep, e)) # rest) ns extras"
    and "\<And>a d os sep x rest ns extras. P rest (setattr d x ns) extras \<Longrightarrow>
           P ((a, Optional (Some (Store d), os, sep, Some x)) # rest) ns extras"
    and "\<And>a d os sep v rest ns extras. P rest (setattr d v ns) extras \<Longrightarrow>
           P ((a, Optional (Some (Store d), os, sep, None)) # (v, Argument) # rest) ns extras"
    and "\<And>a d os sep rest ns extras. \<forall>v rest'. rest \<noteq> (v, Argument) # rest' \<Longrightarrow>
           P ((a, Optional (Some (Store d), os, sep, None)) # rest) ns extras"
  shows "P ps ns extras"
proof (induction ps arbitrary: ns extras rule: length_induct)
  case (1 ps)
  show ?case
  proof (cases ps)
    case Nil
    then show ?thesis using assms(1) by simp
  next
    case (Cons hd rest)
    obtain a pat where hd: "hd = (a, pat)" by (cases hd) auto
    have smaller: "\<And>ns extras. P rest ns extras" using 1 Cons by simp
    show ?thesis
    proof (cases pat)
      case Argument
      then show ?thesis using Cons hd assms(2) smaller by simp
    next
      case Separator
      then show ?thesis using Cons hd assms(3) smaller by simp
    next
      case (Optional t)
      obtain act os sep e where t: "t = (act, os, sep, e)" by (cases t) auto
      show ?thesis
      proof (cases act)
        case None
        then show ?thesis using Cons hd Optional t assms(4) smaller by simp
      next
        case (Some action)
        show ?thesis
        proof (cases action)
          case Help
          then show ?thesis using Cons hd Optional t Some assms(5) by simp
        next
          case (Store d)
          show ?thesis
          proof (cases e)
            case (Some x)
            then show ?thesis
              using Cons hd Optional t \<open>act = Some action\<close> Store assms(6) smaller by simp
          next
            case None
            show ?thesis
            proof (cases "\<exists>v rest'. rest = (v, Argument) # rest'")
              case True
              then obtain v rest' where rest: "rest = (v, Argument) # rest'" by blast
              have "\<And>ns extras. P rest' ns extras" using 1 Cons rest by simp
              then show ?thesis
                using Cons hd Optional t \<open>act = Some action\<close> Store None rest assms(7) by simp
            next
              case False
              then show ?thesis
                using Cons hd Optional t \<open>act = Some action\<close> Store None assms(8) by simp
            qed
          qed
        qed
      qed
    qed
  qed
qed

lemma consume_missing:
  "\<forall>v rest'. rest \<noteq> (v, Argument) # rest' \<Longrightarrow>
     consume ((a, Optional (Some (Store d), os, sep, None)) # rest) ns extras = Inl ErrorExit"
  by (auto simp add: consume_store_next split: list.splits pattern.splits prod.splits)

lemma consume_extras:
  "consume ps ns extras = Inr (ns', extras') \<Longrightarrow>
     extras \<noteq> [] \<or> Separator \<in> snd ` set ps \<Longrightarrow> extras' \<noteq> []"
proof (induction ps ns extras rule: consume_induct)
  case (Help a os sep e rest ns extras)
  then show ?case using consume_help [of a os sep e rest ns extras] by auto
next
  case (Missing a d os sep rest ns extras)
  then show ?case by (simp add: consume_missing)
qed (auto simp add: consume_store_explicit consume_store_next)

lemma consume_help_exit:
  "consume ps ns extras = Inl HelpExit \<Longrightarrow>
     \<exists>a os sep e. (a, Optional (Some Help, os, sep, e)) \<in> set ps"
proof (induction ps ns extras rule: consume_induct)
  case (Missing a d os sep rest ns extras)
  then show ?case by (simp add: consume_missing)
qed (auto simp add: consume_store_explicit consume_store_next)

lemma stored_none:
  "\<forall>a os sep e. (a, Optional (Some (Store d), os, sep, e)) \<notin> set ps \<Longrightarrow> stored d ps = None"
proof (induction ps)
  case Nil
  then show ?case by simp
next
  case (Cons hd ps)
  obtain a pat where hd: "hd = (a, pat)" by (cases hd) auto
  from Cons have "stored d ps = None" by auto
  with Cons.prems hd show ?case
    by (auto split: pattern.splits option.splits action.splits prod.splits)
qed


subsection \<open>The first pass\<close>

lemma get_option_tuples_error: "get_option_tuples a = Inl status \<Longrightarrow> status = ErrorExit"
  by (auto simp add: get_option_tuples_def split: list.splits if_splits prod.splits)

lemma parse_optional_error: "parse_optional a = Inl status \<Longrightarrow> status = ErrorExit"
  by (auto simp add: parse_optional_def
           split: if_splits option.splits prod.splits sum.splits list.splits
           dest: get_option_tuples_error)

lemma classify_error: "classify argv = Inl status \<Longrightarrow> status = ErrorExit"
  by (induction argv) (auto split: if_splits sum.splits dest: parse_optional_error)

lemma classify_fst: "classify argv = Inr ps \<Longrightarrow> map fst ps = argv"
  by (induction argv arbitrary: ps) (auto split: if_splits sum.splits simp add: comp_def)

lemma classify_separator:
  "classify argv = Inr ps \<Longrightarrow> ''--'' \<in> set argv \<Longrightarrow> Separator \<in> snd ` set ps"
  by (induction argv arbitrary: ps) (force split: if_splits sum.splits)+

lemma classify_optional:
  "classify argv = Inr ps \<Longrightarrow> (a, Optional t) \<in> set ps \<Longrightarrow>
     parse_optional a = Inr (Some t) \<and> a \<in> set argv"
  by (induction argv arbitrary: ps) (auto split: if_splits sum.splits option.splits)

lemma classify_stored:
  "classify argv = Inr ps \<Longrightarrow> ''--'' \<notin> set argv \<Longrightarrow> stored d ps = given d argv"
proof (induction argv arbitrary: ps)
  case Nil
  then show ?case by simp
next
  case (Cons a argv)
  from Cons.prems obtain t ps' where t: "parse_optional a = Inr t"
    and ps': "classify argv = Inr ps'"
    and ps: "ps = (a, case t of None \<Rightarrow> Argument | Some t \<Rightarrow> Optional t) # ps'"
    by (auto split: if_splits sum.splits)
  have ih: "stored d ps' = given d argv" using Cons ps' by simp
  have heads: "(case ps' of (v, _) # _ \<Rightarrow> Some v | [] \<Rightarrow> None)
                 = (case argv of v # _ \<Rightarrow> Some v | [] \<Rightarrow> None)"
    using classify_fst [OF ps'] by (cases ps'; cases argv) auto
  show ?case
    using t ps ih heads
    by (auto split: option.splits action.splits prod.splits)
qed

subsection \<open>The parsed arguments\<close>

lemma parse_args_success:
  "parse_args argv = Inr parsed \<Longrightarrow>
     \<exists>ps ns. classify argv = Inr ps \<and> consume ps defaults [] = Inr (ns, [])
             \<and> check_required ns = Inr parsed"
  by (auto simp add: parse_args_def parse_known_args_def
           split: sum.splits prod.splits if_splits)

lemma check_required_location: "check_required ns = Inr parsed \<Longrightarrow> location parsed = ns_location ns"
  by (auto simp add: check_required_def split: option.splits)

lemma parsed_location:
  assumes "parse_args argv = Inr parsed"
  shows "location parsed = (case given Location argv of Some v \<Rightarrow> v | None \<Rightarrow> ''us-central1'')"
proof -
  from parse_args_success [OF assms] obtain ps ns where ps: "classify argv = Inr ps"
    and run: "consume ps defaults [] = Inr (ns, [])" and req: "check_required ns = Inr parsed"
    by blast
  have "Separator \<notin> snd ` set ps" using consume_extras [OF run] by auto
  then have no_sep: "''--'' \<notin> set argv" using classify_separator [OF ps] by auto
  have "getattr Location ns
          = (case stored Location ps of Some v \<Rightarrow> Some v | None \<Rightarrow> getattr Location defaults)"
    by (rule consume_stored [OF run])
  then have "ns_location ns
          = (case given Location argv of Some v \<Rightarrow> v | None \<Rightarrow> ''us-central1'')"
    using classify_stored [OF ps no_sep, of Location]
    by (simp add: defaults_def split: option.splits)
  then show ?thesis using check_required_location [OF req] by simp
qed

lemma not_read_iff:
  "(Some x \<notin> reads_as ` set argv) = (\<forall>a \<in> set argv. reads_as a \<noteq> Some x)"
  by (auto simp add: image_iff)

lemma given_none:
  "\<forall>a \<in> set argv. reads_as a \<noteq> Some (Store d) \<Longrightarrow> given d argv = None"
  by (induction argv)
     (auto simp add: reads_as_def split: sum.splits option.splits action.splits prod.splits)

lemma not_read_not_classified:
  assumes "classify argv = Inr ps" and "\<forall>a \<in> set argv. reads_as a \<noteq> Some action"
  shows "\<forall>a os sep e. (a, Optional (Some action, os, sep, e)) \<notin> set ps"
proof (intro allI notI)
  fix a os sep e
  assume "(a, Optional (Some action, os, sep, e)) \<in> set ps"
  from classify_optional [OF assms(1) this]
  have "reads_as a = Some action" and "a \<in> set argv" by (simp_all add: reads_as_def)
  with assms(2) show False by blast
qed

lemma missing_required:
  assumes "d \<noteq> Location" and "\<forall>a \<in> set argv. reads_as a \<noteq> Some (Store d)"
  shows "parse_args argv = Inl ErrorExit
         \<or> (parse_args argv = Inl HelpExit \<and> (\<exists>a \<in> set argv. reads_as a = Some Help))"
proof (cases "classify argv")
  case (Inl status)
  then show ?thesis using classify_error [OF Inl]
    by (simp add: parse_args_def parse_known_args_def)
next
  case (Inr ps)
  show ?thesis
  proof (cases "consume ps defaults []")
    case (Inl status)
    show ?thesis
    proof (cases status)
      case HelpExit
      with Inl consume_help_exit obtain a os sep e
        where "(a, Optional (Some Help, os, sep, e)) \<in> set ps" by blast
      from classify_optional [OF Inr this]
      have "reads_as a = Some Help" and "a \<in> set argv" by (simp_all add: reads_as_def)
      then show ?thesis using Inr Inl HelpExit
        by (auto simp add: parse_args_def parse_known_args_def)
    next
      case ErrorExit
      then show ?thesis using Inr Inl by (simp add: parse_args_def parse_known_args_def)
    qed
  next
    case (Inr r)
    obtain ns extras where r: "r = (ns, extras)" by (cases r) auto
    have "stored d ps = None"
      using not_read_not_classified [OF \<open>classify argv = Inr ps\<close> assms(2)]
      by (rule stored_none)
    then have "getattr d ns = getattr d defaults"
      using consume_stored [of ps defaults "[]" ns extras d] Inr r by simp
    then have "getattr d ns = None" using assms(1) by (cases d) (simp_all add: defaults_def)
    then have "check_required ns = Inl ErrorExit"
      using assms(1) by (cases d) (auto simp add: check_required_def split: option.splits)
    then show ?thesis using \<open>classify argv = Inr ps\<close> Inr r
      by (simp add: parse_args_def parse_known_args_def)
  qed
qed


lemma consume_value_is_argument:
  "consume ps ns extras = Inr r \<Longrightarrow>
     ps = ps1 @ (a, Optional (Some (Store d), os, sep, None)) # p # ps2 \<Longrightarrow> snd p = Argument"
proof (induction ps ns extras arbitrary: ps1 rule: consume_induct)
  case (Help a' os' sep' e' rest ns extras)
  then show ?case using consume_help [of a' os' sep' e' rest ns extras] by auto
next
  case (Missing a' d' os' sep' rest ns extras)
  have "consume ((a', Optional (Some (Store d'), os', sep', None)) # rest) ns extras
          = Inl ErrorExit"
    using Missing.hyps by (rule consume_missing)
  with Missing.prems(1) show ?case by simp
next
  case (Next a' d' os' sep' v rest ns extras)
  show ?case
  proof (cases ps1)
    case Nil
    with Next.prems show ?thesis by auto
  next
    case (Cons x1 ps1')
    show ?thesis
    proof (cases ps1')
      case Nil
      with Cons Next.prems show ?thesis by auto
    next
      case (Cons x2 ps1'')
      with \<open>ps1 = x1 # ps1'\<close> Next.prems Next.IH [of ps1''] show ?thesis
        by (auto simp add: consume_store_next)
    qed
  qed
qed (auto simp add: consume_store_explicit Cons_eq_append_conv)

lemma classify_append:
  "classify (xs @ ys) = Inr ps \<Longrightarrow> ''--'' \<notin> set xs \<Longrightarrow>
     \<exists>p1 p2. ps = p1 @ p2 \<and> classify xs = Inr p1 \<and> classify ys = Inr p2"
proof (induction xs arbitrary: ps)
  case Nil
  then show ?case by simp
next
  case (Cons x xs)
  from Cons.prems obtain t ps' where t: "parse_optional x = Inr t"
    and ps': "classify (xs @ ys) = Inr ps'"
    and ps: "ps = (x, case t of None \<Rightarrow> Argument | Some t \<Rightarrow> Optional t) # ps'"
    by (auto split: if_splits sum.splits)
  from Cons.IH [OF ps'] Cons.prems obtain p1 p2 where "ps' = p1 @ p2"
    and "classify xs = Inr p1" and "classify ys = Inr p2" by auto
  with t ps Cons.prems show ?case by auto
qed

lemma given_append: "given d ys = Some v \<Longrightarrow> given d (xs @ ys) = Some v"
  by (induction xs) auto

lemma parse_optional_location:
  "parse_optional ''--location'' = Inr (Some (Some (Store Location), ''--location'', None, None))"
  by code_simp

lemma location_option_value:
  assumes ok: "parse_args (pre @ ''--location'' # v # post) = Inr parsed"
    and later: "\<forall>a \<in> set post. reads_as a \<noteq> Some (Store Location)"
  shows "location parsed = v"
proof -
  let ?argv = "pre @ ''--location'' # v # post"
  from parse_args_success [OF ok] obtain ps ns where ps: "classify ?argv = Inr ps"
    and run: "consume ps defaults [] = Inr (ns, [])" by blast
  have "Separator \<notin> snd ` set ps" using consume_extras [OF run] by auto
  then have no_sep: "''--'' \<notin> set ?argv" using classify_separator [OF ps] by auto
  then have "''--'' \<notin> set pre" by simp
  from classify_append [OF ps this] obtain p1 p2 where split: "ps = p1 @ p2"
    and p2: "classify (''--location'' # v # post) = Inr p2" by blast
  from p2 no_sep obtain tv p3 where tv: "parse_optional v = Inr tv"
    and p2': "p2 = (''--location'', Optional (Some (Store Location), ''--location'', None, None))
                    # (v, case tv of None \<Rightarrow> Argument | Some t \<Rightarrow> Optional t) # p3"
    by (auto simp add: parse_optional_location split: if_splits sum.splits)
  have "snd (v, case tv of None \<Rightarrow> Argument | Some t \<Rightarrow> Optional t) = Argument"
    using consume_value_is_argument [OF run] split p2' by blast
  then have "tv = None" by (cases tv) auto
  have "given Location post = None" using later by (rule given_none)
  then have "given Location (''--location'' # v # post) = Some v"
    using tv \<open>tv = None\<close> by (simp add: parse_optional_location)
  then have "given Location ?argv = Some v" by (rule given_append)
  then show ?thesis using parsed_location [OF ok] by simp
qed


subsection \<open>The location\<close>

lemma run_starts_with_init:
  "take 1 (calls_made w (fst (edit_image_mask_free s p l i out q w))) = [Init p l]"
  unfolding edit_image_mask_free_def
  by (simp add: op_defs calls_made_def Let_def split: option.splits sum.splits list.splits)

lemma parse_args_located:
  "parse_args (full @ [''--location'', ''europe-west4''])
     = Inr \<lparr>project_id = ''my-project'', location = ''europe-west4'', input_file = ''in.png'',
            output_file = ''out.png'', prompt = ''a dog''\<rparr>"
  by code_simp

lemma full_has_no_location: "Some (Store Location) \<notin> reads_as ` set full"
  by code_simp

lemma given_located: "given Location (full @ [''--location'', ''europe-west4'']) = Some ''europe-west4''"
  by code_simp

text \<open>
  Claim C3. Whenever parsing succeeds: if no argument of the command line selects the
  location option (in full, abbreviated, or joined to its value), the location is
  \<open>us-central1\<close>; if the command line gives the option, the location is the value it
  gives (that of the last occurrence), in particular the argument that follows
  \<^verbatim>\<open>--location\<close> when no later argument selects the option again. The script passes
  this location to the function, whose first call is the client initialisation with it.
\<close>

theorem location_default_and_override:
  "parse_args argv = Inr parsed \<Longrightarrow>
     (Some (Store Location) \<notin> reads_as ` set argv \<longrightarrow> location parsed = ''us-central1'')
     \<and> (\<forall>v. given Location argv = Some v \<longrightarrow> location parsed = v)
     \<and> (\<forall>pre v post. argv = pre @ ''--location'' # v # post
            \<and> Some (Store Location) \<notin> reads_as ` set post
          \<longrightarrow> location parsed = v)
     \<and> take 1 (calls_made w (fst (main s h argv w)))
         = [Init (project_id parsed) (location parsed)]"
proof (intro conjI allI impI)
  assume ok: "parse_args argv = Inr parsed"
  show "location parsed = ''us-central1''"
    if "Some (Store Location) \<notin> reads_as ` set argv"
    using parsed_location [OF ok] given_none [of argv Location] that
    by (simp add: not_read_iff)
  show "location parsed = v" if "given Location argv = Some v" for v
    using parsed_location [OF ok] that by simp
  show "location parsed = v"
    if "argv = pre @ ''--location'' # v # post
        \<and> Some (Store Location) \<notin> reads_as ` set post" for pre v post
    using location_option_value [of pre v post parsed] ok that
    by (simp add: not_read_iff)
  show "take 1 (calls_made w (fst (main s h argv w)))
          = [Init (project_id parsed) (location parsed)]"
    using run_starts_with_init
      [of w s "project_id parsed" "location parsed" "input_file parsed" "output_file parsed"
          "prompt parsed"] ok
    by (simp add: main_cases)
qed

theorem location_default_and_override_witness:
  "parse_args full
     = Inr \<lparr>project_id = ''my-project'', location = ''us-central1'', input_file = ''in.png'',
            output_file = ''out.png'', prompt = ''a dog''\<rparr>
   \<and> Some (Store Location) \<notin> reads_as ` set full
   \<and> take 1 (calls_made start (fst (main good_sdk [] full start)))
       = [Init ''my-project'' ''us-central1'']
   \<and> parse_args (full @ [''--location'', ''europe-west4''])
       = Inr \<lparr>project_id = ''my-project'', location = ''europe-west4'',
              input_file = ''in.png'', output_file = ''out.png'', prompt = ''a dog''\<rparr>
   \<and> given Location (full @ [''--location'', ''europe-west4'']) = Some ''europe-west4''
   \<and> take 1 (calls_made start
         (fst (main good_sdk [] (full @ [''--location'', ''europe-west4'']) start)))
       = [Init ''my-project'' ''europe-west4'']"
  using location_default_and_override [OF parse_args_full, of start good_sdk "[]"]
    location_default_and_override [OF parse_args_located, of start good_sdk "[]"]
    full_has_no_location given_located
  by (simp add: parse_args_full parse_args_located)

subsection \<open>A missing required option\<close>

lemma without_prompt_has_no_prompt: "Some (Store Prompt) \<notin> reads_as ` set without_prompt"
  by code_simp

lemma without_prompt_has_no_help: "Some Help \<notin> reads_as ` set without_prompt"
  by code_simp

lemma parse_args_without_prompt: "parse_args without_prompt = Inl ErrorExit"
  by code_simp

lemma parse_args_help: "parse_args [''--help''] = Inl HelpExit"
  by code_simp

lemma reads_as_help: "reads_as ''--help'' = Some Help"
  by code_simp

text \<open>
  With the help option as first argument, the parse ends at the help action unless the
  first pass fails on an argument that abbreviates two options.
\<close>

lemma classify_total:
  "Inl ErrorExit \<notin> parse_optional ` set argv \<Longrightarrow> \<exists>ps. classify argv = Inr ps"
proof (induction argv)
  case Nil
  then show ?case by simp
next
  case (Cons a argv)
  then obtain ps where ps: "classify argv = Inr ps" by auto
  from Cons.prems have "parse_optional a \<noteq> Inl ErrorExit" by (auto simp add: image_iff)
  then obtain t where "parse_optional a = Inr t"
    using parse_optional_error [of a] by (cases "parse_optional a") auto
  with ps show ?case by simp
qed

lemma parse_optional_help:
  "a \<in> {''-h'', ''--help''} \<Longrightarrow> parse_optional a = Inr (Some (Some Help, a, None, None))"
  by (auto simp add: parse_optional_def option_string_actions_def)

lemma help_first:
  assumes a: "a \<in> {''-h'', ''--help''}"
    and rest: "Inl ErrorExit \<notin> parse_optional ` set (a # rest)"
  shows "parse_args (a # rest) = Inl HelpExit"
proof -
  from rest have "Inl ErrorExit \<notin> parse_optional ` set rest" by auto
  then obtain ps where ps: "classify rest = Inr ps" using classify_total by blast
  from a have sep: "a \<noteq> ''--''" by auto
  from a ps sep have "classify (a # rest) = Inr ((a, Optional (Some Help, a, None, None)) # ps)"
    by (simp add: parse_optional_help)
  moreover have "consume ((a, Optional (Some Help, a, None, None)) # ps) defaults []
                   = Inl HelpExit"
    by (simp add: consume.simps(5) consume_optional.simps)
  ultimately show ?thesis by (simp add: parse_args_def parse_known_args_def)
qed

lemma parse_optional_help_only: "Inl ErrorExit \<notin> parse_optional ` set [''--help'']"
  by code_simp

text \<open>
  An argument that selects the help option is not enough for the help to be printed: an
  option before it that lacks its value, or an ambiguous abbreviation anywhere, ends the
  parse first.
\<close>

lemma help_not_reached:
  "reads_as ''-h'' = Some Help
   \<and> parse_args [''--prompt'', ''-h''] = Inl ErrorExit
   \<and> parse_args [''--help'', ''--p''] = Inl ErrorExit"
  by code_simp

text \<open>
  Claim C4, as amended. When no argument of the command line selects one of the four
  required options, the script ends in argument parsing: the function is never entered,
  so no call is made and no file is touched. The exit is one of two. Either the status
  is 2 and nothing is printed to standard output; or the status is 0 and the help is
  printed, which happens only when some argument selects the help option. So the status
  is 2 whenever no argument selects the help option. An argument that selects the help
  option does not by itself give status 0: an error met before the help action is
  reached still gives status 2. The status is 0, with the help printed, when the help
  option is the first argument and no argument abbreviates two options at once.
\<close>

theorem missing_required_option_exits:
  "d \<noteq> Location \<Longrightarrow> Some (Store d) \<notin> reads_as ` set argv \<Longrightarrow>
     (main s h argv w = (w, SystemExit 2)
      \<or> main s h argv w = (w\<lparr>stdout := stdout w @ h\<rparr>, SystemExit 0)
        \<and> Some Help \<in> reads_as ` set argv)
     \<and> (Some Help \<notin> reads_as ` set argv \<longrightarrow> exit_status (snd (main s h argv w)) = 2)
     \<and> (argv \<noteq> [] \<and> hd argv \<in> {''-h'', ''--help''}
          \<and> Inl ErrorExit \<notin> parse_optional ` set argv
        \<longrightarrow> main s h argv w = (w\<lparr>stdout := stdout w @ h\<rparr>, SystemExit 0))
     \<and> calls (fst (main s h argv w)) = calls w
     \<and> files (fst (main s h argv w)) = files w"
proof -
  assume d: "d \<noteq> Location" and none: "Some (Store d) \<notin> reads_as ` set argv"
  from none have "\<forall>a \<in> set argv. reads_as a \<noteq> Some (Store d)"
    by (simp add: not_read_iff)
  from missing_required [OF d this]
  consider (usage) "parse_args argv = Inl ErrorExit"
    | (helped) "parse_args argv = Inl HelpExit" "Some Help \<in> reads_as ` set argv"
    by force
  then have main: "(main s h argv w = (w, SystemExit 2)
      \<or> main s h argv w = (w\<lparr>stdout := stdout w @ h\<rparr>, SystemExit 0)
        \<and> Some Help \<in> reads_as ` set argv)
     \<and> (Some Help \<notin> reads_as ` set argv \<longrightarrow> exit_status (snd (main s h argv w)) = 2)
     \<and> calls (fst (main s h argv w)) = calls w
     \<and> files (fst (main s h argv w)) = files w"
  proof cases
    case usage
    then show ?thesis by (simp add: main_def)
  next
    case helped
    then show ?thesis by (simp add: main_def)
  qed
  have "main s h argv w = (w\<lparr>stdout := stdout w @ h\<rparr>, SystemExit 0)"
    if "argv \<noteq> [] \<and> hd argv \<in> {''-h'', ''--help''}
          \<and> Inl ErrorExit \<notin> parse_optional ` set argv"
  proof -
    from that obtain a rest where argv: "argv = a # rest" by (cases argv) auto
    with that have "parse_args (a # rest) = Inl HelpExit" by (intro help_first) simp_all
    with argv show ?thesis by (simp add: main_def)
  qed
  with main show ?thesis by blast
qed

theorem missing_required_option_exits_witness:
  "Prompt \<noteq> Location
   \<and> Some (Store Prompt) \<notin> reads_as ` set without_prompt
   \<and> Some Help \<notin> reads_as ` set without_prompt
   \<and> main good_sdk [''usage''] without_prompt start = (start, SystemExit 2)
   \<and> exit_status (snd (main good_sdk [''usage''] without_prompt start)) = 2
   \<and> calls (fst (main good_sdk [''usage''] without_prompt start)) = calls start
   \<and> Some (Store Prompt) \<notin> reads_as ` set [''--help'']
   \<and> Inl ErrorExit \<notin> parse_optional ` set [''--help'']
   \<and> main good_sdk [''usage''] [''--help''] start
       = (start\<lparr>stdout := [''usage'']\<rparr>, SystemExit 0)
   \<and> files (fst (main good_sdk [''usage''] [''--help''] start)) = files start"
  using missing_required_option_exits [of Prompt without_prompt good_sdk "[''usage'']" start]
    missing_required_option_exits [of Prompt "[''--help'']" good_sdk "[''usage'']" start]
    without_prompt_has_no_prompt without_prompt_has_no_help parse_optional_help_only
  by (simp add: main_def parse_args_without_prompt parse_args_help reads_as_help start_def)

text \<open>
  The claim as stated says the exit status is nonzero whenever a required option is
  missing. The parser has the help option \<^verbatim>\<open>ArgumentParser()\<close> adds: the command line
  \<^verbatim>\<open>--help\<close> has none of the required options and ends with status 0.
\<close>

theorem help_exit_counterexample:
  "reads_as ''--help'' = Some Help
   \<and> main good_sdk [] [''--help''] start = (start, SystemExit 0)
   \<and> exit_status (snd (main good_sdk [] [''--help''] start)) = 0"
  by (simp add: reads_as_help main_def parse_args_help start_def)

end
